theory Spec2Isabelle
  imports Complex_Main "HOL-Library.AList"
begin

section \<open>Data model\<close>

text \<open>
  The development embeds the hook \<open>useUserInactivityAlerts\<close> and the parts of
  \<open>AlertService\<close> it calls. Prices and deviations are \<open>real\<close>, instrument tokens
  \<open>int\<close>, wall-clock times (\<open>Date.now()\<close>, and ISO strings rendered from it)
  milliseconds as \<open>int\<close>. Identifiers from \<open>crypto.randomUUID()\<close> and from the
  database default \<open>gen_random_uuid()\<close> are fresh values of two disjoint kinds.
\<close>

record TickData =
  instrument_token :: int
  last_price :: real
  receivedAt :: int

record UserAlertConfig =
  cfg_user_id :: string
  cfg_instrument_token :: int
  cfg_instrument_name :: string
  exchange :: string
  enabled :: bool
  deviation :: real
  duration :: int
  respect_market_hours :: bool
  notification_sound :: bool
  notification_browser :: bool
  notification_email :: bool

record PricePoint =
  price :: real
  timestamp :: int

text \<open>\<open>Math.min()\<close> and \<open>Math.max()\<close> of no arguments are the two infinities:
  \<open>None\<close> stands for them.\<close>

record PriceRange =
  range_min :: "real option"
  range_max :: "real option"

record AlertData =
  tick_data :: TickData
  config :: UserAlertConfig
  price_history :: "PricePoint list"

datatype uuid = ClientId nat | StoreId nat

record UserAlertLog =
  log_id :: "uuid option"
  user_id :: string
  log_instrument_token :: int
  log_instrument_name :: string
  log_exchange :: string
  alert_type :: string
  alert_data :: AlertData
  baseline_price :: "real option"
  current_price :: "real option"
  price_range :: "PriceRange option"
  log_deviation :: "real option"
  log_duration :: "int option"
  market_session :: "string option"
  market_type :: "string option"
  acknowledged :: bool
  acknowledged_at :: "int option"
  created_at :: "int option"

text \<open>\<open>SymbolState\<close> objects are mutable and shared between the table
  \<open>symbolStates\<close> and the closures of pending timeouts, so they live in a store
  of their own, addressed by \<open>nat\<close>. Audio nodes and timeouts are handles.\<close>

record SymbolState =
  baselinePrice :: real
  timerId :: "nat option"
  priceHistory :: "PricePoint list"
  lastMarketStatusCheck :: int
  wasMarketOpen :: bool
  oscillator :: "nat option"
  gainNode :: "nat option"

text \<open>A pending \<open>setTimeout\<close>: the time from which the runtime may run the
  callback, and what the callback's closure captured (\<open>tick\<close>, \<open>config\<close>, the
  \<open>state\<close> object).\<close>

record Timer =
  fire_at :: int
  tm_tick :: TickData
  tm_config :: UserAlertConfig
  tm_state :: nat

datatype permission = Granted | Denied | Default

datatype toast = InactivityToast string real int

text \<open>The collaborators outside the repository's sources, as they answer at the moment
  of one call: the clock, \<open>getInstrumentName\<close> (market-data-grid),
  \<open>shouldAlertsBeActive\<close> and \<open>getDetailedMarketStatus\<close> (market-timings), whether
  the Supabase request of this call returns without \<open>error\<close>, and the browser's
  Notification API. All readings of \<open>Date.now()\<close> within one synchronous handler (one
  run of the effect, one timeout callback, one API call) give the same value
  \<open>now\<close>.\<close>

record env =
  now :: int
  getInstrumentName :: "TickData \<Rightarrow> string"
  shouldAlertsBeActive :: "string \<Rightarrow> bool"
  getDetailedMarketStatus :: "string \<Rightarrow> string \<times> string"
  store_ok :: bool
  notification_supported :: bool
  notification_permission :: permission
  permission_after_request :: permission

text \<open>A call of \<open>AlertService.logAlert\<close> that has not returned yet: the record it was
  given and what the rest of \<open>triggerAlert\<close> still uses (\<open>tick\<close>, \<open>config\<close>, the
  \<open>state\<close> object).\<close>

record Pending =
  pa_alert :: UserAlertLog
  pa_tick :: TickData
  pa_config :: UserAlertConfig
  pa_state :: nat

text \<open>Everything the hook reads and writes. \<open>oracleCalls\<close> counts the calls of
  \<open>shouldAlertsBeActive\<close>; \<open>playing\<close> holds the oscillators started and not
  stopped; \<open>store\<close> is the table \<open>user_alert_logs\<close>. React state
  (\<open>alerts\<close>, \<open>inactiveSymbols\<close>, \<open>configurations\<close>) is updated in place: the
  functional updates \<open>setAlerts(prev => ...)\<close> are applied in the order they are
  issued. The signed-in user stays the same during a run. \<open>inflight\<close> holds the calls
  of \<open>logAlert\<close> awaited by \<open>triggerAlert\<close>. A record keeps the value its
  \<open>price_history\<close> had when it was built.\<close>

record world =
  user :: "string option"
  loading :: bool
  configurations :: "int \<rightharpoonup> UserAlertConfig"
  alerts :: "UserAlertLog list"
  inactiveSymbols :: "int set"
  symbolStates :: "(int \<times> nat) list"
  heap :: "nat \<Rightarrow> SymbolState"
  nextAddr :: nat
  timers :: "(nat \<times> Timer) list"
  nextTimerId :: nat
  audioContext :: bool
  playing :: "nat set"
  nextNode :: nat
  nextUuid :: nat
  store :: "UserAlertLog list"
  nextStoreId :: nat
  oracleCalls :: nat
  notifications :: "UserAlertLog list"
  toasts :: "toast list"
  inflight :: "Pending list"

definition empty_state :: SymbolState where
  "empty_state = \<lparr>baselinePrice = 0, timerId = None, priceHistory = [],
     lastMarketStatusCheck = 0, wasMarketOpen = False, oscillator = None, gainNode = None\<rparr>"

text \<open>The hook after the configurations of a signed-in user have been loaded and before
  any tick: no state object, no timeout, nothing cached, nothing logged.\<close>

definition init_world :: "string \<Rightarrow> (int \<rightharpoonup> UserAlertConfig) \<Rightarrow> bool \<Rightarrow> world" where
  "init_world uid cfgs audio =
     \<lparr>user = Some uid, loading = False, configurations = cfgs, alerts = [],
      inactiveSymbols = {}, symbolStates = [], heap = (\<lambda>_. empty_state), nextAddr = 0,
      timers = [], nextTimerId = 1, audioContext = audio, playing = {}, nextNode = 0,
      nextUuid = 0, store = [], nextStoreId = 0, oracleCalls = 0, notifications = [],
      toasts = [], inflight = []\<rparr>"

section \<open>AlertService\<close>

text \<open>\<open>logAlert\<close>: an insert into \<open>user_alert_logs\<close>; the table's defaults give the
  row its id and \<open>created_at\<close>. Returns \<open>false\<close> when Supabase reports an error.\<close>

definition AlertService_logAlert :: "env \<Rightarrow> UserAlertLog \<Rightarrow> world \<Rightarrow> bool \<times> world" where
  "AlertService_logAlert e entry w =
     (if store_ok e
      then (True, w\<lparr>store := store w @ [entry\<lparr>log_id := Some (StoreId (nextStoreId w)),
                                              created_at := Some (now e)\<rparr>],
                    nextStoreId := nextStoreId w + 1\<rparr>)
      else (False, w))"

text \<open>\<open>acknowledgeAlert\<close>: \<open>update {acknowledged, acknowledged_at}\<close> where
  \<open>id = alertId\<close> and \<open>user_id = userId\<close>.\<close>

definition AlertService_acknowledgeAlert :: "env \<Rightarrow> string \<Rightarrow> uuid \<Rightarrow> world \<Rightarrow> bool \<times> world" where
  "AlertService_acknowledgeAlert e userId alertId w =
     (if store_ok e
      then (True, w\<lparr>store := map (\<lambda>r. if log_id r = Some alertId \<and> user_id r = userId
                                       then r\<lparr>acknowledged := True, acknowledged_at := Some (now e)\<rparr>
                                       else r) (store w)\<rparr>)
      else (False, w))"

text \<open>\<open>acknowledgeAllAlerts\<close>: the same update where \<open>user_id = userId\<close> and
  \<open>acknowledged = false\<close>.\<close>

definition AlertService_acknowledgeAllAlerts :: "env \<Rightarrow> string \<Rightarrow> world \<Rightarrow> bool \<times> world" where
  "AlertService_acknowledgeAllAlerts e userId w =
     (if store_ok e
      then (True, w\<lparr>store := map (\<lambda>r. if user_id r = userId \<and> acknowledged r = False
                                       then r\<lparr>acknowledged := True, acknowledged_at := Some (now e)\<rparr>
                                       else r) (store w)\<rparr>)
      else (False, w))"

text \<open>\<open>saveAlertConfig\<close>: an upsert into \<open>user_alert_configs\<close>, a table the hook
  reads only when it loads; the call is its result.\<close>

definition AlertService_saveAlertConfig :: "env \<Rightarrow> UserAlertConfig \<Rightarrow> bool" where
  "AlertService_saveAlertConfig e cfg = store_ok e"

section \<open>Tick ingestion\<close>

text \<open>The loop that fills \<open>latestTicks\<close>. A JavaScript \<open>Map\<close> keeps its keys in
  insertion order and \<open>set\<close> on a present key keeps the key's place, which is
  \<open>AList.update\<close>.\<close>

definition latest_step :: "TickData \<Rightarrow> (int \<times> TickData) list \<Rightarrow> (int \<times> TickData) list" where
  "latest_step tick m =
     (case map_of m (instrument_token tick) of
        None \<Rightarrow> AList.update (instrument_token tick) tick m
      | Some old \<Rightarrow> if receivedAt tick > receivedAt old
                    then AList.update (instrument_token tick) tick m else m)"

definition latestTicks :: "TickData list \<Rightarrow> (int \<times> TickData) list" where
  "latestTicks ticks = fold latest_step ticks []"

section \<open>Sounds, notifications, timeouts\<close>

definition upd_state :: "nat \<Rightarrow> (SymbolState \<Rightarrow> SymbolState) \<Rightarrow> world \<Rightarrow> world" where
  "upd_state a f w = w\<lparr>heap := (heap w)(a := f (heap w a))\<rparr>"

definition clearTimeout :: "nat \<Rightarrow> world \<Rightarrow> world" where
  "clearTimeout tid w = w\<lparr>timers := filter (\<lambda>p. fst p \<noteq> tid) (timers w)\<rparr>"

definition stopAlertSound :: "int \<Rightarrow> world \<Rightarrow> world" where
  "stopAlertSound token w =
     (case map_of (symbolStates w) token of
        None \<Rightarrow> w
      | Some a \<Rightarrow>
          (case oscillator (heap w a) of
             None \<Rightarrow> w
           | Some osc \<Rightarrow>
               upd_state a (\<lambda>s. s\<lparr>oscillator := None, gainNode := None\<rparr>)
                 (w\<lparr>playing := playing w - {osc}\<rparr>)))"

definition playAlertSound :: "int \<Rightarrow> UserAlertConfig \<Rightarrow> world \<Rightarrow> world" where
  "playAlertSound token cfg w =
     (if \<not> notification_sound cfg \<or> \<not> audioContext w then w
      else
        let w1 = stopAlertSound token w;
            osc = nextNode w1;
            gain = nextNode w1 + 1;
            w2 = w1\<lparr>playing := insert osc (playing w1), nextNode := nextNode w1 + 2\<rparr>
        in case map_of (symbolStates w2) token of
             None \<Rightarrow> w2
           | Some a \<Rightarrow> upd_state a (\<lambda>s. s\<lparr>oscillator := Some osc, gainNode := Some gain\<rparr>) w2)"

text \<open>With the permission undecided the source asks for it and shows the
  notification from the promise when it is granted.\<close>

definition showBrowserNotification :: "env \<Rightarrow> UserAlertLog \<Rightarrow> UserAlertConfig \<Rightarrow> world \<Rightarrow> world" where
  "showBrowserNotification e alert cfg w =
     (if \<not> notification_browser cfg \<or> \<not> notification_supported e then w
      else if notification_permission e = Granted
           then w\<lparr>notifications := notifications w @ [alert]\<rparr>
      else if notification_permission e \<noteq> Denied
           then (if permission_after_request e = Granted
                 then w\<lparr>notifications := notifications w @ [alert]\<rparr> else w)
      else w)"

definition math_min :: "real list \<Rightarrow> real option" where
  "math_min xs = (case xs of [] \<Rightarrow> None | y # ys \<Rightarrow> Some (fold min ys y))"

definition math_max :: "real list \<Rightarrow> real option" where
  "math_max xs = (case xs of [] \<Rightarrow> None | y # ys \<Rightarrow> Some (fold max ys y))"

text \<open>The record \<open>newAlert\<close> of \<open>triggerAlert\<close>.\<close>

definition newAlert :: "env \<Rightarrow> string \<Rightarrow> TickData \<Rightarrow> UserAlertConfig \<Rightarrow> SymbolState \<Rightarrow> UserAlertLog" where
  "newAlert e uid tick cfg st =
     (let instrumentName = getInstrumentName e tick;
          marketStatus = getDetailedMarketStatus e instrumentName;
          prices = map price (priceHistory st);
          priceRange = \<lparr>range_min = math_min prices, range_max = math_max prices\<rparr>
      in \<lparr>log_id = None,
          user_id = uid,
          log_instrument_token = instrument_token tick,
          log_instrument_name = instrumentName,
          log_exchange = exchange cfg,
          alert_type = ''inactivity'',
          alert_data = \<lparr>tick_data = tick, config = cfg, price_history = priceHistory st\<rparr>,
          baseline_price = Some (baselinePrice st),
          current_price = Some (last_price tick),
          price_range = Some priceRange,
          log_deviation = Some (deviation cfg),
          log_duration = Some (duration cfg),
          market_session = Some (fst marketStatus),
          market_type = Some (snd marketStatus),
          acknowledged = False,
          acknowledged_at = None,
          created_at = None\<rparr>)"

text \<open>\<open>triggerAlert(tick, config, state)\<close>; \<open>a\<close> is the address of \<open>state\<close>. The
  function is asynchronous. Here \<open>logAlert\<close> returns before any other handler runs, so
  that the function is one step; below it is cut at its \<open>await\<close>, for the runs in which
  other handlers come in between.\<close>

definition triggerAlert :: "env \<Rightarrow> TickData \<Rightarrow> UserAlertConfig \<Rightarrow> nat \<Rightarrow> world \<Rightarrow> world" where
  "triggerAlert e tick cfg a w =
     (case user w of
        None \<Rightarrow> w
      | Some uid \<Rightarrow>
          let st = heap w a;
              alert = newAlert e uid tick cfg st;
              (success, w1) = AlertService_logAlert e alert w
          in if success then
               let w2 = w1\<lparr>alerts := take 100 (alert\<lparr>log_id := Some (ClientId (nextUuid w1)),
                                                        created_at := Some (now e)\<rparr> # alerts w1),
                           nextUuid := nextUuid w1 + 1\<rparr>;
                   w3 = w2\<lparr>inactiveSymbols := insert (instrument_token tick) (inactiveSymbols w2)\<rparr>;
                   w4 = playAlertSound (instrument_token tick) cfg w3;
                   w5 = showBrowserNotification e
                          (alert\<lparr>log_id := Some (ClientId (nextUuid w4)), created_at := Some (now e)\<rparr>)
                          cfg (w4\<lparr>nextUuid := nextUuid w4 + 1\<rparr>)
               in w5\<lparr>toasts := toasts w5 @
                       [InactivityToast (getInstrumentName e tick) (baselinePrice st) (duration cfg)]\<rparr>
             else w1)"

text \<open>\<open>triggerAlert\<close> up to its \<open>await\<close>: without a user nothing; otherwise the
  record is built and \<open>logAlert\<close> is called with it.\<close>

definition triggerAlert_begin :: "env \<Rightarrow> TickData \<Rightarrow> UserAlertConfig \<Rightarrow> nat \<Rightarrow> world \<Rightarrow> world" where
  "triggerAlert_begin e tick cfg a w =
     (case user w of
        None \<Rightarrow> w
      | Some uid \<Rightarrow>
          w\<lparr>inflight := inflight w @
               [\<lparr>pa_alert = newAlert e uid tick cfg (heap w a), pa_tick = tick,
                 pa_config = cfg, pa_state = a\<rparr>]\<rparr>)"

text \<open>\<open>triggerAlert\<close> after its \<open>await\<close>, with the result of \<open>logAlert\<close>. The toast
  reads \<open>state.baselinePrice\<close> now; \<open>playAlertSound\<close> looks the token up in
  \<open>symbolStates\<close> now.\<close>

definition triggerAlert_resume :: "env \<Rightarrow> bool \<Rightarrow> Pending \<Rightarrow> world \<Rightarrow> world" where
  "triggerAlert_resume e success p w1 =
     (let alert = pa_alert p; tick = pa_tick p; cfg = pa_config p
      in if success then
           let w2 = w1\<lparr>alerts := take 100 (alert\<lparr>log_id := Some (ClientId (nextUuid w1)),
                                                    created_at := Some (now e)\<rparr> # alerts w1),
                       nextUuid := nextUuid w1 + 1\<rparr>;
               w3 = w2\<lparr>inactiveSymbols := insert (instrument_token tick) (inactiveSymbols w2)\<rparr>;
               w4 = playAlertSound (instrument_token tick) cfg w3;
               w5 = showBrowserNotification e
                      (alert\<lparr>log_id := Some (ClientId (nextUuid w4)), created_at := Some (now e)\<rparr>)
                      cfg (w4\<lparr>nextUuid := nextUuid w4 + 1\<rparr>)
           in w5\<lparr>toasts := toasts w5 @
                   [InactivityToast (getInstrumentName e tick)
                      (baselinePrice (heap w1 (pa_state p))) (duration cfg)]\<rparr>
         else w1)"

text \<open>The call of \<open>logAlert\<close> at position \<open>n\<close> of the awaited ones returns: the
  insert has been made or refused, and \<open>triggerAlert\<close> goes on.\<close>

definition logAlert_returns :: "env \<Rightarrow> nat \<Rightarrow> world \<Rightarrow> world" where
  "logAlert_returns e n w =
     (if n < length (inflight w)
      then let p = inflight w ! n;
               w0 = w\<lparr>inflight := take n (inflight w) @ drop (Suc n) (inflight w)\<rparr>;
               (success, w1) = AlertService_logAlert e (pa_alert p) w0
           in triggerAlert_resume e success p w1
      else w)"

definition clearSymbolState :: "int \<Rightarrow> world \<Rightarrow> world" where
  "clearSymbolState token w =
     (let w1 = (case map_of (symbolStates w) token of
                  None \<Rightarrow> w
                | Some a \<Rightarrow> (case timerId (heap w a) of
                               None \<Rightarrow> w
                             | Some tid \<Rightarrow> clearTimeout tid w));
          w2 = stopAlertSound token w1;
          w3 = w2\<lparr>symbolStates := AList.delete token (symbolStates w2)\<rparr>
      in w3\<lparr>inactiveSymbols :=
              (if token \<in> inactiveSymbols w3 then inactiveSymbols w3 - {token}
               else inactiveSymbols w3)\<rparr>)"

text \<open>\<open>resetInactivityTimer(tick, config, state)\<close>: the earlier timeout is cleared,
  the history restarts at this tick, a new timeout is set. A timeout handle is never 0, so
  \<open>if (state.timerId)\<close> tests for \<open>null\<close>.\<close>

definition resetInactivityTimer :: "env \<Rightarrow> TickData \<Rightarrow> UserAlertConfig \<Rightarrow> nat \<Rightarrow> world \<Rightarrow> world" where
  "resetInactivityTimer e tick cfg a w =
     (let w1 = (case timerId (heap w a) of None \<Rightarrow> w | Some tid \<Rightarrow> clearTimeout tid w);
          w2 = upd_state a (\<lambda>s. s\<lparr>priceHistory := [\<lparr>price = last_price tick, timestamp = now e\<rparr>]\<rparr>) w1;
          tid' = nextTimerId w2;
          w3 = w2\<lparr>timers := timers w2 @
                     [(tid', \<lparr>fire_at = now e + duration cfg * 1000, tm_tick = tick,
                              tm_config = cfg, tm_state = a\<rparr>)],
                   nextTimerId := tid' + 1\<rparr>
      in upd_state a (\<lambda>s. s\<lparr>timerId := Some tid'\<rparr>) w3)"

text \<open>The callback given to \<open>setTimeout\<close>.\<close>

definition timeout_callback :: "env \<Rightarrow> Timer \<Rightarrow> world \<Rightarrow> world" where
  "timeout_callback e tm w =
     (let tick = tm_tick tm; cfg = tm_config tm;
          instrumentName = getInstrumentName e tick;
          shouldAlert = (if respect_market_hours cfg then shouldAlertsBeActive e instrumentName else True);
          w1 = (if respect_market_hours cfg then w\<lparr>oracleCalls := oracleCalls w + 1\<rparr> else w)
      in if shouldAlert then triggerAlert e tick cfg (tm_state tm) w1
         else clearSymbolState (instrument_token tick) (stopAlertSound (instrument_token tick) w1))"

text \<open>The runtime runs the callback of a pending timeout once, not before its delay has
  passed; a cleared or already run timeout never runs.\<close>

definition fire_timer :: "env \<Rightarrow> nat \<Rightarrow> world \<Rightarrow> world" where
  "fire_timer e tid w =
     (case map_of (timers w) tid of
        None \<Rightarrow> w
      | Some tm \<Rightarrow> if now e < fire_at tm then w
                   else timeout_callback e tm (clearTimeout tid w))"

text \<open>The same callback and the same rule of the runtime, with \<open>triggerAlert\<close> run up
  to its \<open>await\<close> only.\<close>

definition timeout_callback_begin :: "env \<Rightarrow> Timer \<Rightarrow> world \<Rightarrow> world" where
  "timeout_callback_begin e tm w =
     (let tick = tm_tick tm; cfg = tm_config tm;
          instrumentName = getInstrumentName e tick;
          shouldAlert = (if respect_market_hours cfg then shouldAlertsBeActive e instrumentName else True);
          w1 = (if respect_market_hours cfg then w\<lparr>oracleCalls := oracleCalls w + 1\<rparr> else w)
      in if shouldAlert then triggerAlert_begin e tick cfg (tm_state tm) w1
         else clearSymbolState (instrument_token tick) (stopAlertSound (instrument_token tick) w1))"

definition fire_timer_begin :: "env \<Rightarrow> nat \<Rightarrow> world \<Rightarrow> world" where
  "fire_timer_begin e tid w =
     (case map_of (timers w) tid of
        None \<Rightarrow> w
      | Some tm \<Rightarrow> if now e < fire_at tm then w
                   else timeout_callback_begin e tm (clearTimeout tid w))"

section \<open>The tick-processing effect\<close>

definition cancel_timer :: "nat \<Rightarrow> world \<Rightarrow> world" where
  "cancel_timer a w =
     (case timerId (heap w a) of
        None \<Rightarrow> w
      | Some tid \<Rightarrow> upd_state a (\<lambda>s. s\<lparr>timerId := None\<rparr>) (clearTimeout tid w))"

text \<open>\<open>if (inactiveSymbols.has(token)) setInactiveSymbols(prev => ... delete(token))\<close>.
  The test reads the set of the render the effect belongs to; within one run of the
  effect every token is processed once and only its own entry can have been removed
  before, so the test gives what it gives on the current set.\<close>

definition remove_inactive :: "int \<Rightarrow> world \<Rightarrow> world" where
  "remove_inactive token w =
     (if token \<in> inactiveSymbols w then w\<lparr>inactiveSymbols := inactiveSymbols w - {token}\<rparr> else w)"

definition slice_last :: "nat \<Rightarrow> 'a list \<Rightarrow> 'a list" where
  "slice_last n xs = drop (length xs - n) xs"

text \<open>The body of \<open>latestTicks.forEach\<close> once a state object exists for the token, at
  address \<open>a\<close>: the throttled check for a change of market status, the guard for a closed
  market, then the history and the deviation test.\<close>

definition process_existing :: "env \<Rightarrow> TickData \<Rightarrow> UserAlertConfig \<Rightarrow> bool \<Rightarrow> nat \<Rightarrow> world \<Rightarrow> world" where
  "process_existing e tick cfg shouldAlert a w =
     (let token = instrument_token tick;
          st0 = heap w a;
          check = (now e - lastMarketStatusCheck st0 > 60000);
          w1 = (if check then upd_state a (\<lambda>s. s\<lparr>lastMarketStatusCheck := now e\<rparr>) w else w)
      in if check \<and> wasMarketOpen st0 \<noteq> shouldAlert then
           let w2 = upd_state a (\<lambda>s. s\<lparr>wasMarketOpen := shouldAlert\<rparr>) w1
           in if shouldAlert then
                let w3 = upd_state a (\<lambda>s. s\<lparr>baselinePrice := last_price tick\<rparr>) w2;
                    w4 = resetInactivityTimer e tick cfg a w3;
                    w5 = remove_inactive token w4
                in stopAlertSound token w5
              else cancel_timer a (stopAlertSound token w2)
         else if \<not> shouldAlert \<and> respect_market_hours cfg then
           cancel_timer a (stopAlertSound token w1)
         else
           let w2 = upd_state a (\<lambda>s. s\<lparr>priceHistory := priceHistory s @
                                        [\<lparr>price = last_price tick, timestamp = now e\<rparr>]\<rparr>) w1;
               fiveMinutesAgo = now e - 5 * 60 * 1000;
               w3 = upd_state a (\<lambda>s. s\<lparr>priceHistory :=
                                        slice_last 100 (filter (\<lambda>h. timestamp h > fiveMinutesAgo)
                                                          (priceHistory s))\<rparr>) w2;
               priceMoved = (\<bar>last_price tick - baselinePrice (heap w3 a)\<bar> > deviation cfg)
           in if priceMoved then
                let w4 = upd_state a (\<lambda>s. s\<lparr>baselinePrice := last_price tick\<rparr>) w3;
                    w5 = resetInactivityTimer e tick cfg a w4;
                    w6 = remove_inactive token w5
                in stopAlertSound token w6
              else w3)"

text \<open>The body of \<open>latestTicks.forEach\<close>.\<close>

definition process_tick :: "env \<Rightarrow> TickData \<Rightarrow> world \<Rightarrow> world" where
  "process_tick e tick w =
     (let token = instrument_token tick in
      case configurations w token of
        None \<Rightarrow> clearSymbolState token w
      | Some cfg \<Rightarrow>
          if \<not> enabled cfg then clearSymbolState token w
          else
            let instrumentName = getInstrumentName e tick;
                shouldAlert = (if respect_market_hours cfg
                               then shouldAlertsBeActive e instrumentName else True);
                w0 = (if respect_market_hours cfg then w\<lparr>oracleCalls := oracleCalls w + 1\<rparr> else w)
            in case map_of (symbolStates w0) token of
                 None \<Rightarrow>
                   let a = nextAddr w0;
                       st = \<lparr>baselinePrice = last_price tick, timerId = None,
                             priceHistory = [\<lparr>price = last_price tick, timestamp = now e\<rparr>],
                             lastMarketStatusCheck = now e, wasMarketOpen = shouldAlert,
                             oscillator = None, gainNode = None\<rparr>;
                       w1 = w0\<lparr>heap := (heap w0)(a := st),
                                symbolStates := AList.update token a (symbolStates w0),
                                nextAddr := a + 1\<rparr>
                   in if shouldAlert then resetInactivityTimer e tick cfg a w1 else w1
               | Some a \<Rightarrow> process_existing e tick cfg shouldAlert a w0)"

text \<open>The effect itself: nothing without a user or while loading; otherwise every
  tick of \<open>latestTicks\<close>, in the order of the \<open>Map\<close>.\<close>

definition tick_effect :: "env \<Rightarrow> TickData list \<Rightarrow> world \<Rightarrow> world" where
  "tick_effect e ticks w =
     (if user w = None \<or> loading w then w
      else fold (process_tick e) (map snd (latestTicks ticks)) w)"

section \<open>Lifecycle API\<close>

definition updateConfiguration :: "env \<Rightarrow> int \<Rightarrow> UserAlertConfig \<Rightarrow> world \<Rightarrow> bool \<times> world" where
  "updateConfiguration e token cfg w =
     (case user w of
        None \<Rightarrow> (False, w)
      | Some uid \<Rightarrow>
          if AlertService_saveAlertConfig e cfg
          then (True, clearSymbolState token (w\<lparr>configurations := (configurations w)(token \<mapsto> cfg)\<rparr>))
          else (False, w))"

definition acknowledgeAlert :: "env \<Rightarrow> uuid \<Rightarrow> world \<Rightarrow> bool \<times> world" where
  "acknowledgeAlert e alertId w =
     (case user w of
        None \<Rightarrow> (False, w)
      | Some uid \<Rightarrow>
          let (success, w1) = AlertService_acknowledgeAlert e uid alertId w
          in if success
             then (True, w1\<lparr>alerts := map (\<lambda>alert. if log_id alert = Some alertId
                                                    then alert\<lparr>acknowledged := True,
                                                               acknowledged_at := Some (now e)\<rparr>
                                                    else alert) (alerts w1)\<rparr>)
             else (False, w1))"

definition clearAllAlerts :: "env \<Rightarrow> world \<Rightarrow> world" where
  "clearAllAlerts e w =
     (case user w of
        None \<Rightarrow> w
      | Some uid \<Rightarrow>
          let (success, w1) = AlertService_acknowledgeAllAlerts e uid w
          in if success
             then let w2 = w1\<lparr>alerts := []\<rparr>;
                      w3 = fold stopAlertSound (map fst (symbolStates w2)) w2
                  in w3\<lparr>inactiveSymbols := {}\<rparr>
             else w1)"

section \<open>Runs of the hook\<close>

text \<open>What can happen to the hook: the effect runs on an array of ticks (also again on
  the same array, when one of its dependencies changed), the runtime runs a timeout, or
  the caller uses the lifecycle API. Each event comes with the environment of its
  moment. A timeout whose \<open>logAlert\<close> returns before anything else happens is the one
  event \<open>Timeout\<close>; otherwise it is \<open>TimeoutBegins\<close>, any other events, and
  \<open>LogAlertReturns\<close> for its call.\<close>

datatype event =
    Ticks env "TickData list"
  | Timeout env nat
  | UpdateConfiguration env int UserAlertConfig
  | Acknowledge env uuid
  | ClearAll env
  | TimeoutBegins env nat
  | LogAlertReturns env nat

fun step :: "event \<Rightarrow> world \<Rightarrow> world" where
  "step (Ticks e ticks) w = tick_effect e ticks w"
| "step (Timeout e tid) w = fire_timer e tid w"
| "step (UpdateConfiguration e token cfg) w = snd (updateConfiguration e token cfg w)"
| "step (Acknowledge e alertId) w = snd (acknowledgeAlert e alertId w)"
| "step (ClearAll e) w = clearAllAlerts e w"
| "step (TimeoutBegins e tid) w = fire_timer_begin e tid w"
| "step (LogAlertReturns e n) w = logAlert_returns e n w"

definition run :: "event list \<Rightarrow> world \<Rightarrow> world" where
  "run evs w = fold step evs w"


section \<open>Predicates used in the properties\<close>

text \<open>Position \<open>i\<close> holds a tick of the token whose \<open>receivedAt\<close> no tick of
  the token exceeds and no earlier tick of the token reaches.\<close>

definition first_latest :: "TickData list \<Rightarrow> int \<Rightarrow> nat \<Rightarrow> bool" where
  "first_latest ticks tok i \<longleftrightarrow>
     i < length ticks \<and> instrument_token (ticks ! i) = tok \<and>
     (\<forall>j<length ticks. instrument_token (ticks ! j) = tok \<longrightarrow>
        receivedAt (ticks ! j) \<le> receivedAt (ticks ! i) \<and>
        (j < i \<longrightarrow> receivedAt (ticks ! j) < receivedAt (ticks ! i)))"

text \<open>The two lines that append the tick and prune the history.\<close>

definition pruned :: "env \<Rightarrow> TickData \<Rightarrow> PricePoint list \<Rightarrow> PricePoint list" where
  "pruned e tick h =
     slice_last 100 (filter (\<lambda>p. timestamp p > now e - 5 * 60 * 1000)
                       (h @ [\<lparr>price = last_price tick, timestamp = now e\<rparr>]))"

text \<open>A history of at most 100 points none of which is 5 minutes or more older than
  its last point; a world all of whose state objects have such a history.\<close>

definition hist_ok :: "PricePoint list \<Rightarrow> bool" where
  "hist_ok h \<longleftrightarrow> length h \<le> 100 \<and> (\<forall>p\<in>set h. timestamp (last h) - timestamp p < 300000)"

definition hist_inv :: "world \<Rightarrow> bool" where
  "hist_inv w \<longleftrightarrow> (\<forall>a. hist_ok (priceHistory (heap w a)))"

text \<open>A record whose \<open>current_price\<close> and \<open>baseline_price\<close> are the same number.
  The invariant of pending timeouts: the state object a timeout captured is allocated,
  names this timeout as its \<open>timerId\<close>, and has the captured tick's price as its
  baseline; timeout handles and addresses are fresh; every record stored, cached or
  given to an awaited \<open>logAlert\<close> is such a record.\<close>

definition emitted_ok :: "UserAlertLog \<Rightarrow> bool" where
  "emitted_ok r \<longleftrightarrow> (\<exists>p. current_price r = Some p \<and> baseline_price r = Some p)"


section \<open>A concrete instrument\<close>

text \<open>Token 101 with deviation 1.0 and duration 30 s, the market-hours flag left
  open; an environment at a given time in which the market oracle gives a fixed answer
  and the store accepts or refuses; a tick of token 101.\<close>

definition scenario_config :: "bool \<Rightarrow> UserAlertConfig" where
  "scenario_config rmh = \<lparr>cfg_user_id = ''u1'', cfg_instrument_token = 101,
     cfg_instrument_name = ''INSTR'', exchange = ''NSE'', enabled = True, deviation = 1.0,
     duration = 30, respect_market_hours = rmh, notification_sound = True,
     notification_browser = True, notification_email = False\<rparr>"

definition scenario_env :: "int \<Rightarrow> bool \<Rightarrow> bool \<Rightarrow> env" where
  "scenario_env t active ok = \<lparr>now = t, getInstrumentName = (\<lambda>_. ''INSTR''),
     shouldAlertsBeActive = (\<lambda>_. active),
     getDetailedMarketStatus = (\<lambda>_. (''open'', ''equity'')), store_ok = ok,
     notification_supported = True, notification_permission = Granted,
     permission_after_request = Granted\<rparr>"

definition scenario_tick :: "real \<Rightarrow> int \<Rightarrow> TickData" where
  "scenario_tick p t = \<lparr>instrument_token = 101, last_price = p, receivedAt = t\<rparr>"

definition scenario_init :: "bool \<Rightarrow> world" where
  "scenario_init rmh = init_world ''u1'' [101 \<mapsto> scenario_config rmh] True"

text \<open>Ticks at t = 0 s (price 100) and t = 10 s (price 100.5), market hours not
  respected.\<close>

definition scenario_two_ticks :: world where
  "scenario_two_ticks =
     run [Ticks (scenario_env 0 True True) [scenario_tick 100 0],
          Ticks (scenario_env 10000 True True) [scenario_tick 100.5 10000]]
       (scenario_init False)"

text \<open>The timeout armed at t = 0 has run at t = 30 s with the store accepting.\<close>

definition scenario_fired :: world where
  "scenario_fired = fire_timer (scenario_env 30000 True True) 1 scenario_two_ticks"

text \<open>The same instrument with the market-hours flag set, after its first tick at
  t = 0 while the market is open.\<close>

definition scenario_market_tick :: world where
  "scenario_market_tick =
     run [Ticks (scenario_env 0 True True) [scenario_tick 100 0]] (scenario_init True)"

text \<open>The two-tick scenario continued: the timeout runs at t = 30 s and its insert is
  awaited; the configuration of token 101 is saved disabled at t = 31 s and the effect
  runs again; the insert returns at t = 32 s; the configuration is saved enabled again at
  t = 33 s and the effect runs again.\<close>

definition scenario_orphan :: world where
  "scenario_orphan =
     run [TimeoutBegins (scenario_env 30000 True True) 1,
          UpdateConfiguration (scenario_env 31000 True True) 101
            ((scenario_config False)\<lparr>enabled := False\<rparr>),
          Ticks (scenario_env 31000 True True) [scenario_tick 100.5 10000],
          LogAlertReturns (scenario_env 32000 True True) 0,
          UpdateConfiguration (scenario_env 33000 True True) 101 (scenario_config False),
          Ticks (scenario_env 33000 True True) [scenario_tick 100.5 10000]]
       scenario_two_ticks"

section \<open>Unfolding the hook\<close>

lemmas hook_defs = run_def tick_effect_def latestTicks_def latest_step_def process_tick_def
  process_existing_def resetInactivityTimer_def upd_state_def clearTimeout_def
  Let_def slice_last_def
  stopAlertSound_def remove_inactive_def cancel_timer_def clearSymbolState_def
  fire_timer_def timeout_callback_def triggerAlert_def newAlert_def AlertService_logAlert_def
  playAlertSound_def showBrowserNotification_def math_min_def math_max_def
  triggerAlert_begin_def triggerAlert_resume_def logAlert_returns_def
  timeout_callback_begin_def fire_timer_begin_def

lemmas scenario_defs = scenario_config_def scenario_env_def scenario_tick_def scenario_init_def
  scenario_two_ticks_def init_world_def empty_state_def

section \<open>What each operation leaves alone\<close>

lemma upd_state_fields [simp]:
  "symbolStates (upd_state a f w) = symbolStates w"
  "alerts (upd_state a f w) = alerts w"
  "inactiveSymbols (upd_state a f w) = inactiveSymbols w"
  "timers (upd_state a f w) = timers w"
  "nextTimerId (upd_state a f w) = nextTimerId w"
  "nextAddr (upd_state a f w) = nextAddr w"
  "store (upd_state a f w) = store w"
  "user (upd_state a f w) = user w"
  "loading (upd_state a f w) = loading w"
  "configurations (upd_state a f w) = configurations w"
  "oracleCalls (upd_state a f w) = oracleCalls w"
  "playing (upd_state a f w) = playing w"
  "heap (upd_state a f w) b = (if b = a then f (heap w a) else heap w b)"
  "inflight (upd_state a f w) = inflight w"
  by (simp_all add: upd_state_def)

lemma clearTimeout_fields [simp]:
  "symbolStates (clearTimeout tid w) = symbolStates w"
  "alerts (clearTimeout tid w) = alerts w"
  "inactiveSymbols (clearTimeout tid w) = inactiveSymbols w"
  "timers (clearTimeout tid w) = filter (\<lambda>p. fst p \<noteq> tid) (timers w)"
  "nextTimerId (clearTimeout tid w) = nextTimerId w"
  "nextAddr (clearTimeout tid w) = nextAddr w"
  "store (clearTimeout tid w) = store w"
  "user (clearTimeout tid w) = user w"
  "loading (clearTimeout tid w) = loading w"
  "configurations (clearTimeout tid w) = configurations w"
  "oracleCalls (clearTimeout tid w) = oracleCalls w"
  "playing (clearTimeout tid w) = playing w"
  "heap (clearTimeout tid w) = heap w"
  "inflight (clearTimeout tid w) = inflight w"
  by (simp_all add: clearTimeout_def)

lemma stopAlertSound_fields [simp]:
  "symbolStates (stopAlertSound t w) = symbolStates w"
  "alerts (stopAlertSound t w) = alerts w"
  "inactiveSymbols (stopAlertSound t w) = inactiveSymbols w"
  "timers (stopAlertSound t w) = timers w"
  "nextTimerId (stopAlertSound t w) = nextTimerId w"
  "nextAddr (stopAlertSound t w) = nextAddr w"
  "store (stopAlertSound t w) = store w"
  "user (stopAlertSound t w) = user w"
  "loading (stopAlertSound t w) = loading w"
  "configurations (stopAlertSound t w) = configurations w"
  "oracleCalls (stopAlertSound t w) = oracleCalls w"
  "inflight (stopAlertSound t w) = inflight w"
  by (simp_all add: stopAlertSound_def split: option.splits)

lemma stopAlertSound_heap [simp]:
  "baselinePrice (heap (stopAlertSound t w) a) = baselinePrice (heap w a)"
  "timerId (heap (stopAlertSound t w) a) = timerId (heap w a)"
  "priceHistory (heap (stopAlertSound t w) a) = priceHistory (heap w a)"
  "lastMarketStatusCheck (heap (stopAlertSound t w) a) = lastMarketStatusCheck (heap w a)"
  "wasMarketOpen (heap (stopAlertSound t w) a) = wasMarketOpen (heap w a)"
  by (simp_all add: stopAlertSound_def split: option.splits)

lemma stopAlertSound_playing: "playing (stopAlertSound t w) \<subseteq> playing w"
  by (auto simp: stopAlertSound_def split: option.splits)

lemma stopAlertSound_stops:
  "map_of (symbolStates w) t = Some a \<Longrightarrow> oscillator (heap (stopAlertSound t w) a) = None"
  by (simp add: stopAlertSound_def split: option.splits)

lemma stopAlertSound_silent:
  "oscillator (heap w a) = None \<Longrightarrow> oscillator (heap (stopAlertSound t w) a) = None"
  by (simp add: stopAlertSound_def split: option.splits)

lemma stopAlertSound_removed:
  "oscillator (heap w a) = Some osc \<Longrightarrow> oscillator (heap (stopAlertSound t w) a) = None \<Longrightarrow>
   osc \<notin> playing (stopAlertSound t w)"
  by (auto simp: stopAlertSound_def split: option.splits if_splits)

lemma stopAlertSound_kept:
  "oscillator (heap (stopAlertSound t w) a) = None \<or>
   oscillator (heap (stopAlertSound t w) a) = oscillator (heap w a)"
  by (auto simp: stopAlertSound_def split: option.splits if_splits)

lemma playAlertSound_fields [simp]:
  "symbolStates (playAlertSound t cfg w) = symbolStates w"
  "alerts (playAlertSound t cfg w) = alerts w"
  "inactiveSymbols (playAlertSound t cfg w) = inactiveSymbols w"
  "timers (playAlertSound t cfg w) = timers w"
  "nextTimerId (playAlertSound t cfg w) = nextTimerId w"
  "nextAddr (playAlertSound t cfg w) = nextAddr w"
  "store (playAlertSound t cfg w) = store w"
  "user (playAlertSound t cfg w) = user w"
  "loading (playAlertSound t cfg w) = loading w"
  "configurations (playAlertSound t cfg w) = configurations w"
  "oracleCalls (playAlertSound t cfg w) = oracleCalls w"
  "toasts (playAlertSound t cfg w) = toasts w"
  "nextUuid (playAlertSound t cfg w) = nextUuid w"
  "inflight (playAlertSound t cfg w) = inflight w"
  by (simp_all add: playAlertSound_def stopAlertSound_def upd_state_def Let_def split: option.splits)

lemma playAlertSound_heap [simp]:
  "baselinePrice (heap (playAlertSound t cfg w) a) = baselinePrice (heap w a)"
  "timerId (heap (playAlertSound t cfg w) a) = timerId (heap w a)"
  "priceHistory (heap (playAlertSound t cfg w) a) = priceHistory (heap w a)"
  "lastMarketStatusCheck (heap (playAlertSound t cfg w) a) = lastMarketStatusCheck (heap w a)"
  "wasMarketOpen (heap (playAlertSound t cfg w) a) = wasMarketOpen (heap w a)"
  by (simp_all add: playAlertSound_def stopAlertSound_def upd_state_def Let_def split: option.splits)

lemma showBrowserNotification_fields [simp]:
  "symbolStates (showBrowserNotification e r cfg w) = symbolStates w"
  "alerts (showBrowserNotification e r cfg w) = alerts w"
  "inactiveSymbols (showBrowserNotification e r cfg w) = inactiveSymbols w"
  "timers (showBrowserNotification e r cfg w) = timers w"
  "nextTimerId (showBrowserNotification e r cfg w) = nextTimerId w"
  "nextAddr (showBrowserNotification e r cfg w) = nextAddr w"
  "store (showBrowserNotification e r cfg w) = store w"
  "user (showBrowserNotification e r cfg w) = user w"
  "loading (showBrowserNotification e r cfg w) = loading w"
  "configurations (showBrowserNotification e r cfg w) = configurations w"
  "oracleCalls (showBrowserNotification e r cfg w) = oracleCalls w"
  "toasts (showBrowserNotification e r cfg w) = toasts w"
  "heap (showBrowserNotification e r cfg w) = heap w"
  "inflight (showBrowserNotification e r cfg w) = inflight w"
  by (simp_all add: showBrowserNotification_def)

lemma triggerAlert_fields [simp]:
  "symbolStates (triggerAlert e tick cfg a w) = symbolStates w"
  "timers (triggerAlert e tick cfg a w) = timers w"
  "nextTimerId (triggerAlert e tick cfg a w) = nextTimerId w"
  "nextAddr (triggerAlert e tick cfg a w) = nextAddr w"
  "user (triggerAlert e tick cfg a w) = user w"
  "loading (triggerAlert e tick cfg a w) = loading w"
  "configurations (triggerAlert e tick cfg a w) = configurations w"
  "oracleCalls (triggerAlert e tick cfg a w) = oracleCalls w"
  "inflight (triggerAlert e tick cfg a w) = inflight w"
  by (simp_all add: triggerAlert_def AlertService_logAlert_def Let_def split: option.splits)

lemma triggerAlert_heap [simp]:
  "baselinePrice (heap (triggerAlert e tick cfg a w) b) = baselinePrice (heap w b)"
  "timerId (heap (triggerAlert e tick cfg a w) b) = timerId (heap w b)"
  "priceHistory (heap (triggerAlert e tick cfg a w) b) = priceHistory (heap w b)"
  "lastMarketStatusCheck (heap (triggerAlert e tick cfg a w) b) = lastMarketStatusCheck (heap w b)"
  "wasMarketOpen (heap (triggerAlert e tick cfg a w) b) = wasMarketOpen (heap w b)"
  by (simp_all add: triggerAlert_def AlertService_logAlert_def Let_def split: option.splits)


lemma cancel_timer_fields [simp]:
  "symbolStates (cancel_timer a w) = symbolStates w"
  "alerts (cancel_timer a w) = alerts w"
  "inactiveSymbols (cancel_timer a w) = inactiveSymbols w"
  "nextTimerId (cancel_timer a w) = nextTimerId w"
  "nextAddr (cancel_timer a w) = nextAddr w"
  "store (cancel_timer a w) = store w"
  "user (cancel_timer a w) = user w"
  "loading (cancel_timer a w) = loading w"
  "configurations (cancel_timer a w) = configurations w"
  "oracleCalls (cancel_timer a w) = oracleCalls w"
  "playing (cancel_timer a w) = playing w"
  "inflight (cancel_timer a w) = inflight w"
  by (simp_all add: cancel_timer_def split: option.splits)

lemma cancel_timer_heap [simp]:
  "baselinePrice (heap (cancel_timer a w) b) = baselinePrice (heap w b)"
  "priceHistory (heap (cancel_timer a w) b) = priceHistory (heap w b)"
  "lastMarketStatusCheck (heap (cancel_timer a w) b) = lastMarketStatusCheck (heap w b)"
  "wasMarketOpen (heap (cancel_timer a w) b) = wasMarketOpen (heap w b)"
  "oscillator (heap (cancel_timer a w) b) = oscillator (heap w b)"
  "timerId (heap (cancel_timer a w) b) = (if b = a then None else timerId (heap w b))"
  by (simp_all add: cancel_timer_def split: option.splits)


lemma remove_inactive_fields [simp]:
  "symbolStates (remove_inactive t w) = symbolStates w"
  "alerts (remove_inactive t w) = alerts w"
  "inactiveSymbols (remove_inactive t w) = inactiveSymbols w - {t}"
  "timers (remove_inactive t w) = timers w"
  "nextTimerId (remove_inactive t w) = nextTimerId w"
  "nextAddr (remove_inactive t w) = nextAddr w"
  "store (remove_inactive t w) = store w"
  "user (remove_inactive t w) = user w"
  "loading (remove_inactive t w) = loading w"
  "configurations (remove_inactive t w) = configurations w"
  "oracleCalls (remove_inactive t w) = oracleCalls w"
  "playing (remove_inactive t w) = playing w"
  "heap (remove_inactive t w) = heap w"
  "inflight (remove_inactive t w) = inflight w"
  by (simp_all add: remove_inactive_def)

lemma resetInactivityTimer_fields [simp]:
  "symbolStates (resetInactivityTimer e tick cfg a w) = symbolStates w"
  "alerts (resetInactivityTimer e tick cfg a w) = alerts w"
  "inactiveSymbols (resetInactivityTimer e tick cfg a w) = inactiveSymbols w"
  "nextTimerId (resetInactivityTimer e tick cfg a w) = nextTimerId w + 1"
  "nextAddr (resetInactivityTimer e tick cfg a w) = nextAddr w"
  "store (resetInactivityTimer e tick cfg a w) = store w"
  "user (resetInactivityTimer e tick cfg a w) = user w"
  "loading (resetInactivityTimer e tick cfg a w) = loading w"
  "configurations (resetInactivityTimer e tick cfg a w) = configurations w"
  "oracleCalls (resetInactivityTimer e tick cfg a w) = oracleCalls w"
  "playing (resetInactivityTimer e tick cfg a w) = playing w"
  "inflight (resetInactivityTimer e tick cfg a w) = inflight w"
  by (simp_all add: resetInactivityTimer_def Let_def split: option.splits)

lemma resetInactivityTimer_heap [simp]:
  "baselinePrice (heap (resetInactivityTimer e tick cfg a w) b) = baselinePrice (heap w b)"
  "lastMarketStatusCheck (heap (resetInactivityTimer e tick cfg a w) b) = lastMarketStatusCheck (heap w b)"
  "wasMarketOpen (heap (resetInactivityTimer e tick cfg a w) b) = wasMarketOpen (heap w b)"
  "oscillator (heap (resetInactivityTimer e tick cfg a w) b) = oscillator (heap w b)"
  "timerId (heap (resetInactivityTimer e tick cfg a w) b)
     = (if b = a then Some (nextTimerId w) else timerId (heap w b))"
  "priceHistory (heap (resetInactivityTimer e tick cfg a w) b)
     = (if b = a then [\<lparr>price = last_price tick, timestamp = now e\<rparr>] else priceHistory (heap w b))"
  by (simp_all add: resetInactivityTimer_def Let_def split: option.splits)


lemma clearSymbolState_fields [simp]:
  "symbolStates (clearSymbolState t w) = AList.delete t (symbolStates w)"
  "alerts (clearSymbolState t w) = alerts w"
  "inactiveSymbols (clearSymbolState t w) = inactiveSymbols w - {t}"
  "nextTimerId (clearSymbolState t w) = nextTimerId w"
  "nextAddr (clearSymbolState t w) = nextAddr w"
  "store (clearSymbolState t w) = store w"
  "user (clearSymbolState t w) = user w"
  "loading (clearSymbolState t w) = loading w"
  "configurations (clearSymbolState t w) = configurations w"
  "oracleCalls (clearSymbolState t w) = oracleCalls w"
  "inflight (clearSymbolState t w) = inflight w"
  by (simp_all add: clearSymbolState_def Let_def split: option.splits)

lemma clearSymbolState_heap [simp]:
  "baselinePrice (heap (clearSymbolState t w) b) = baselinePrice (heap w b)"
  "timerId (heap (clearSymbolState t w) b) = timerId (heap w b)"
  "priceHistory (heap (clearSymbolState t w) b) = priceHistory (heap w b)"
  "lastMarketStatusCheck (heap (clearSymbolState t w) b) = lastMarketStatusCheck (heap w b)"
  "wasMarketOpen (heap (clearSymbolState t w) b) = wasMarketOpen (heap w b)"
  by (simp_all add: clearSymbolState_def Let_def split: option.splits)


lemma counted_fields [simp]:
  "heap (if c then w\<lparr>oracleCalls := n\<rparr> else w) = heap w"
  "symbolStates (if c then w\<lparr>oracleCalls := n\<rparr> else w) = symbolStates w"
  "timers (if c then w\<lparr>oracleCalls := n\<rparr> else w) = timers w"
  "nextTimerId (if c then w\<lparr>oracleCalls := n\<rparr> else w) = nextTimerId w"
  "nextAddr (if c then w\<lparr>oracleCalls := n\<rparr> else w) = nextAddr w"
  "store (if c then w\<lparr>oracleCalls := n\<rparr> else w) = store w"
  "alerts (if c then w\<lparr>oracleCalls := n\<rparr> else w) = alerts w"
  "inactiveSymbols (if c then w\<lparr>oracleCalls := n\<rparr> else w) = inactiveSymbols w"
  "user (if c then w\<lparr>oracleCalls := n\<rparr> else w) = user w"
  "loading (if c then w\<lparr>oracleCalls := n\<rparr> else w) = loading w"
  "configurations (if c then w\<lparr>oracleCalls := n\<rparr> else w) = configurations w"
  "playing (if c then w\<lparr>oracleCalls := n\<rparr> else w) = playing w"
  "inflight (if c then w\<lparr>oracleCalls := n\<rparr> else w) = inflight w"
  by simp_all

lemma triggerAlert_begin_fields [simp]:
  "symbolStates (triggerAlert_begin e tick cfg a w) = symbolStates w"
  "alerts (triggerAlert_begin e tick cfg a w) = alerts w"
  "inactiveSymbols (triggerAlert_begin e tick cfg a w) = inactiveSymbols w"
  "timers (triggerAlert_begin e tick cfg a w) = timers w"
  "nextTimerId (triggerAlert_begin e tick cfg a w) = nextTimerId w"
  "nextAddr (triggerAlert_begin e tick cfg a w) = nextAddr w"
  "store (triggerAlert_begin e tick cfg a w) = store w"
  "user (triggerAlert_begin e tick cfg a w) = user w"
  "loading (triggerAlert_begin e tick cfg a w) = loading w"
  "configurations (triggerAlert_begin e tick cfg a w) = configurations w"
  "oracleCalls (triggerAlert_begin e tick cfg a w) = oracleCalls w"
  "playing (triggerAlert_begin e tick cfg a w) = playing w"
  "heap (triggerAlert_begin e tick cfg a w) = heap w"
  by (simp_all add: triggerAlert_begin_def split: option.splits)


lemma triggerAlert_resume_fields [simp]:
  "symbolStates (triggerAlert_resume e ok p w) = symbolStates w"
  "timers (triggerAlert_resume e ok p w) = timers w"
  "nextTimerId (triggerAlert_resume e ok p w) = nextTimerId w"
  "nextAddr (triggerAlert_resume e ok p w) = nextAddr w"
  "store (triggerAlert_resume e ok p w) = store w"
  "user (triggerAlert_resume e ok p w) = user w"
  "loading (triggerAlert_resume e ok p w) = loading w"
  "configurations (triggerAlert_resume e ok p w) = configurations w"
  "oracleCalls (triggerAlert_resume e ok p w) = oracleCalls w"
  "inflight (triggerAlert_resume e ok p w) = inflight w"
  by (simp_all add: triggerAlert_resume_def Let_def)

lemma triggerAlert_resume_heap [simp]:
  "baselinePrice (heap (triggerAlert_resume e ok p w) b) = baselinePrice (heap w b)"
  "timerId (heap (triggerAlert_resume e ok p w) b) = timerId (heap w b)"
  "priceHistory (heap (triggerAlert_resume e ok p w) b) = priceHistory (heap w b)"
  "lastMarketStatusCheck (heap (triggerAlert_resume e ok p w) b) = lastMarketStatusCheck (heap w b)"
  "wasMarketOpen (heap (triggerAlert_resume e ok p w) b) = wasMarketOpen (heap w b)"
  by (simp_all add: triggerAlert_resume_def Let_def)


lemma logAlert_returns_fields [simp]:
  "symbolStates (logAlert_returns e n w) = symbolStates w"
  "timers (logAlert_returns e n w) = timers w"
  "nextTimerId (logAlert_returns e n w) = nextTimerId w"
  "nextAddr (logAlert_returns e n w) = nextAddr w"
  "user (logAlert_returns e n w) = user w"
  "loading (logAlert_returns e n w) = loading w"
  "configurations (logAlert_returns e n w) = configurations w"
  "oracleCalls (logAlert_returns e n w) = oracleCalls w"
  by (simp_all add: logAlert_returns_def AlertService_logAlert_def Let_def)

lemma logAlert_returns_heap [simp]:
  "baselinePrice (heap (logAlert_returns e n w) b) = baselinePrice (heap w b)"
  "timerId (heap (logAlert_returns e n w) b) = timerId (heap w b)"
  "priceHistory (heap (logAlert_returns e n w) b) = priceHistory (heap w b)"
  "lastMarketStatusCheck (heap (logAlert_returns e n w) b) = lastMarketStatusCheck (heap w b)"
  "wasMarketOpen (heap (logAlert_returns e n w) b) = wasMarketOpen (heap w b)"
  by (simp_all add: logAlert_returns_def AlertService_logAlert_def Let_def)




section \<open>Stopping every sound\<close>

lemma fold_stop_frame [simp]:
  "symbolStates (fold stopAlertSound ts w) = symbolStates w"
  "alerts (fold stopAlertSound ts w) = alerts w"
  "store (fold stopAlertSound ts w) = store w"
  "timers (fold stopAlertSound ts w) = timers w"
  "nextAddr (fold stopAlertSound ts w) = nextAddr w"
  "nextTimerId (fold stopAlertSound ts w) = nextTimerId w"
  "timerId (heap (fold stopAlertSound ts w) a) = timerId (heap w a)"
  "baselinePrice (heap (fold stopAlertSound ts w) a) = baselinePrice (heap w a)"
  "priceHistory (heap (fold stopAlertSound ts w) a) = priceHistory (heap w a)"
  "inflight (fold stopAlertSound ts w) = inflight w"
  by (induction ts arbitrary: w) simp_all

lemma fold_stop_playing: "playing (fold stopAlertSound ts w) \<subseteq> playing w"
proof (induction ts arbitrary: w)
  case Nil
  show ?case by simp
next
  case (Cons t ts)
  have "playing (fold stopAlertSound ts (stopAlertSound t w)) \<subseteq> playing (stopAlertSound t w)"
    by (rule Cons.IH)
  with stopAlertSound_playing[of t w] show ?case by auto
qed

lemma fold_stop_silent:
  "oscillator (heap w a) = None \<Longrightarrow> oscillator (heap (fold stopAlertSound ts w) a) = None"
  by (induction ts arbitrary: w) (simp_all add: stopAlertSound_silent)

lemma fold_stop_stops:
  "t \<in> set ts \<Longrightarrow> map_of (symbolStates w) t = Some a \<Longrightarrow>
   oscillator (heap (fold stopAlertSound ts w) a) = None"
proof (induction ts arbitrary: w)
  case Nil
  then show ?case by simp
next
  case (Cons u ts)
  show ?case
  proof (cases "t = u")
    case True
    with Cons.prems have "oscillator (heap (stopAlertSound u w) a) = None"
      by (simp add: stopAlertSound_stops)
    then show ?thesis by (simp add: fold_stop_silent)
  next
    case False
    with Cons.prems have "t \<in> set ts" by simp
    moreover from Cons.prems have "map_of (symbolStates (stopAlertSound u w)) t = Some a" by simp
    ultimately show ?thesis using Cons.IH by simp
  qed
qed

lemma fold_stop_removed:
  "oscillator (heap w a) = Some osc \<Longrightarrow> oscillator (heap (fold stopAlertSound ts w) a) = None \<Longrightarrow>
   osc \<notin> playing (fold stopAlertSound ts w)"
proof (induction ts arbitrary: w)
  case Nil
  then show ?case by simp
next
  case (Cons u ts)
  show ?case
  proof (cases "oscillator (heap (stopAlertSound u w) a)")
    case None
    with Cons.prems have "osc \<notin> playing (stopAlertSound u w)"
      by (simp add: stopAlertSound_removed)
    with fold_stop_playing[of ts "stopAlertSound u w"] show ?thesis by auto
  next
    case (Some o')
    with stopAlertSound_kept[of u w a] Cons.prems have "oscillator (heap (stopAlertSound u w) a) = Some osc"
      by simp
    with Cons.IH[of "stopAlertSound u w"] Cons.prems show ?thesis by simp
  qed
qed

section \<open>The concrete instrument, evaluated\<close>

lemma scenario_two_ticks_eq:
  "scenario_two_ticks =
     (scenario_init False)
       \<lparr>symbolStates := [(101, 0)],
        heap := (\<lambda>_. empty_state)
          (0 := \<lparr>baselinePrice = 100, timerId = Some 1,
                 priceHistory = [\<lparr>price = 100, timestamp = 0\<rparr>,
                                 \<lparr>price = 100.5, timestamp = 10000\<rparr>],
                 lastMarketStatusCheck = 0, wasMarketOpen = True,
                 oscillator = None, gainNode = None\<rparr>),
        nextAddr := 1,
        timers := [(1, \<lparr>fire_at = 30000, tm_tick = scenario_tick 100 0,
                         tm_config = scenario_config False, tm_state = 0\<rparr>)],
        nextTimerId := 2\<rparr>"
  by (simp add: scenario_defs hook_defs)

lemma scenario_market_tick_eq:
  "scenario_market_tick =
     (scenario_init True)
       \<lparr>symbolStates := [(101, 0)],
        heap := (\<lambda>_. empty_state)
          (0 := \<lparr>baselinePrice = 100, timerId = Some 1,
                 priceHistory = [\<lparr>price = 100, timestamp = 0\<rparr>],
                 lastMarketStatusCheck = 0, wasMarketOpen = True,
                 oscillator = None, gainNode = None\<rparr>),
        nextAddr := 1,
        timers := [(1, \<lparr>fire_at = 30000, tm_tick = scenario_tick 100 0,
                         tm_config = scenario_config True, tm_state = 0\<rparr>)],
        nextTimerId := 2,
        oracleCalls := 1\<rparr>"
  by (simp add: scenario_market_tick_def scenario_defs hook_defs)

lemmas scenario_eval = scenario_two_ticks_eq scenario_market_tick_eq scenario_init_def
  scenario_config_def scenario_env_def scenario_tick_def init_world_def empty_state_def

lemma scenario_two_ticks_facts:
  "user scenario_two_ticks = Some ''u1''"
  "configurations scenario_two_ticks 101 = Some (scenario_config False)"
  "map_of (symbolStates scenario_two_ticks) 101 = Some 0"
  "map_of (timers scenario_two_ticks) 1
     = Some \<lparr>fire_at = 30000, tm_tick = scenario_tick 100 0,
              tm_config = scenario_config False, tm_state = 0\<rparr>"
  "timerId (heap scenario_two_ticks 0) = Some 1"
  "baselinePrice (heap scenario_two_ticks 0) = 100"
  "inactiveSymbols scenario_two_ticks = {}"
  "alerts scenario_two_ticks = []"
  by (simp_all add: scenario_eval)

lemma scenario_market_tick_facts:
  "configurations scenario_market_tick 101 = Some (scenario_config True)"
  "map_of (symbolStates scenario_market_tick) 101 = Some 0"
  "timerId (heap scenario_market_tick 0) = Some 1"
  "baselinePrice (heap scenario_market_tick 0) = 100"
  "lastMarketStatusCheck (heap scenario_market_tick 0) = 0"
  "wasMarketOpen (heap scenario_market_tick 0) = True"
  "oracleCalls scenario_market_tick = 1"
  by (simp_all add: scenario_eval)


section \<open>Tick ingestion keeps the first tick of greatest \<open>receivedAt\<close>\<close>

lemma map_of_latest_step:
  "map_of (latest_step t m) k =
     (if k = instrument_token t
      then (case map_of m k of None \<Rightarrow> Some t
            | Some old \<Rightarrow> if receivedAt t > receivedAt old then Some t else Some old)
      else map_of m k)"
  by (simp add: latest_step_def AList.update_conv' split: option.splits)

lemma latestTicks_snoc: "latestTicks (xs @ [x]) = latest_step x (latestTicks xs)"
  by (simp add: latestTicks_def)

lemma first_latest_keep:
  assumes "first_latest xs tok i"
    and "instrument_token x = tok \<longrightarrow> receivedAt x \<le> receivedAt (xs ! i)"
  shows "first_latest (xs @ [x]) tok i"
  using assms unfolding first_latest_def
  by (auto simp: nth_append less_Suc_eq)

lemma first_latest_new:
  assumes "instrument_token x = tok"
    and "\<forall>j<length xs. instrument_token (xs ! j) = tok \<longrightarrow> receivedAt (xs ! j) < receivedAt x"
  shows "first_latest (xs @ [x]) tok (length xs)"
  using assms unfolding first_latest_def
  by (auto simp: nth_append less_Suc_eq)

lemma latestTicks_char:
  "(case map_of (latestTicks ticks) tok of
      None \<Rightarrow> tok \<notin> instrument_token ` set ticks
    | Some t \<Rightarrow> \<exists>i. first_latest ticks tok i \<and> ticks ! i = t)"
proof (induction ticks rule: rev_induct)
  case Nil
  then show ?case by (simp add: latestTicks_def)
next
  case (snoc x xs)
  show ?case
  proof (cases "instrument_token x = tok")
    case False
    show ?thesis
    proof (cases "map_of (latestTicks xs) tok")
      case None
      with snoc False show ?thesis
        by (simp add: latestTicks_snoc map_of_latest_step)
    next
      case (Some t)
      with snoc obtain i where i: "first_latest xs tok i" "xs ! i = t" by auto
      from i(1) False have "first_latest (xs @ [x]) tok i" by (intro first_latest_keep) auto
      moreover from i have "(xs @ [x]) ! i = t" by (simp add: first_latest_def nth_append)
      ultimately show ?thesis using Some False
        by (auto simp: latestTicks_snoc map_of_latest_step)
    qed
  next
    case True
    show ?thesis
    proof (cases "map_of (latestTicks xs) tok")
      case None
      with snoc have "tok \<notin> instrument_token ` set xs" by simp
      then have "\<forall>j<length xs. instrument_token (xs ! j) \<noteq> tok"
        by (metis image_eqI nth_mem)
      with True have "first_latest (xs @ [x]) tok (length xs)"
        by (intro first_latest_new) auto
      with None True show ?thesis
        by (auto simp: latestTicks_snoc map_of_latest_step)
    next
      case (Some t)
      with snoc obtain i where i: "first_latest xs tok i" "xs ! i = t" by auto
      show ?thesis
      proof (cases "receivedAt x > receivedAt t")
        case gt: True
        from i gt have "\<forall>j<length xs. instrument_token (xs ! j) = tok \<longrightarrow> receivedAt (xs ! j) < receivedAt x"
          unfolding first_latest_def by fastforce
        with True have "first_latest (xs @ [x]) tok (length xs)"
          by (intro first_latest_new) auto
        with Some True gt show ?thesis
          by (auto simp: latestTicks_snoc map_of_latest_step)
      next
        case le: False
        with i have "first_latest (xs @ [x]) tok i" by (intro first_latest_keep) auto
        moreover from i have "(xs @ [x]) ! i = t" by (simp add: first_latest_def nth_append)
        ultimately show ?thesis using Some True le
          by (auto simp: latestTicks_snoc map_of_latest_step)
      qed
    qed
  qed
qed

text \<open>
  Claim C4, as amended. For every batch and token, \<open>latestTicks\<close> has no entry for a
  token absent from the batch, and for a token in the batch it holds the tick of that
  token with the greatest \<open>receivedAt\<close>; among ticks of the token with equal
  \<open>receivedAt\<close> the one appearing first in the batch is kept (the comparison in the
  loop is strict).
\<close>

theorem latestTicks_greatest_first:
  "(tok \<notin> instrument_token ` set ticks \<longrightarrow> map_of (latestTicks ticks) tok = None) \<and>
   (tok \<in> instrument_token ` set ticks \<longrightarrow>
      (\<exists>i<length ticks. map_of (latestTicks ticks) tok = Some (ticks ! i) \<and>
         instrument_token (ticks ! i) = tok \<and>
         (\<forall>j<length ticks. instrument_token (ticks ! j) = tok \<longrightarrow>
            receivedAt (ticks ! j) \<le> receivedAt (ticks ! i) \<and>
            (j < i \<longrightarrow> receivedAt (ticks ! j) < receivedAt (ticks ! i)))))"
proof (cases "map_of (latestTicks ticks) tok")
  case None
  with latestTicks_char[where ticks=ticks and tok=tok] show ?thesis by simp
next
  case (Some t)
  with latestTicks_char[where ticks=ticks and tok=tok] obtain i where i: "first_latest ticks tok i" "ticks ! i = t"
    by auto
  then have "tok \<in> instrument_token ` set ticks"
    unfolding first_latest_def by (metis image_eqI nth_mem)
  moreover from i Some have "\<exists>i<length ticks. map_of (latestTicks ticks) tok = Some (ticks ! i) \<and>
         instrument_token (ticks ! i) = tok \<and>
         (\<forall>j<length ticks. instrument_token (ticks ! j) = tok \<longrightarrow>
            receivedAt (ticks ! j) \<le> receivedAt (ticks ! i) \<and>
            (j < i \<longrightarrow> receivedAt (ticks ! j) < receivedAt (ticks ! i)))"
    unfolding first_latest_def by blast
  ultimately show ?thesis by blast
qed

theorem latestTicks_greatest_first_witness:
  "\<exists>i<length [\<lparr>instrument_token = 101, last_price = 100, receivedAt = 5\<rparr>,
               \<lparr>instrument_token = 101, last_price = 200, receivedAt = 5\<rparr>,
               \<lparr>instrument_token = 102, last_price = 7, receivedAt = 9\<rparr>].
      map_of (latestTicks [\<lparr>instrument_token = 101, last_price = 100, receivedAt = 5\<rparr>,
               \<lparr>instrument_token = 101, last_price = 200, receivedAt = 5\<rparr>,
               \<lparr>instrument_token = 102, last_price = 7, receivedAt = 9\<rparr>]) 101
        = Some ([\<lparr>instrument_token = 101, last_price = 100, receivedAt = 5\<rparr>,
               \<lparr>instrument_token = 101, last_price = 200, receivedAt = 5\<rparr>,
               \<lparr>instrument_token = 102, last_price = 7, receivedAt = 9\<rparr>] ! i)"
proof -
  let ?ticks = "[\<lparr>instrument_token = 101, last_price = 100, receivedAt = 5\<rparr>,
               \<lparr>instrument_token = 101, last_price = 200, receivedAt = 5\<rparr>,
               \<lparr>instrument_token = 102, last_price = (7::real), receivedAt = 9\<rparr>]"
  have "101 \<in> instrument_token ` set ?ticks" by simp
  with latestTicks_greatest_first[of 101 ?ticks] show ?thesis by blast
qed

text \<open>
  Claim C4 as stated fails: of two ticks of token 101 with the same \<open>receivedAt\<close>
  the earlier one is kept, not the later one.
\<close>

theorem latestTicks_tie_counterexample:
  "map_of (latestTicks [\<lparr>instrument_token = 101, last_price = 100, receivedAt = 5\<rparr>,
                        \<lparr>instrument_token = 101, last_price = 200, receivedAt = 5\<rparr>]) 101
     = Some \<lparr>instrument_token = 101, last_price = 100, receivedAt = 5\<rparr>
   \<and> map_of (latestTicks [\<lparr>instrument_token = 101, last_price = 100, receivedAt = 5\<rparr>,
                        \<lparr>instrument_token = 101, last_price = 200, receivedAt = 5\<rparr>]) 101
     \<noteq> Some \<lparr>instrument_token = 101, last_price = 200, receivedAt = 5\<rparr>"
  by (simp add: latestTicks_def latest_step_def)

section \<open>The two-tick scenario\<close>

text \<open>
  Claim C3, as amended. With deviation 1.0, duration 30 s and market hours not
  respected, after the ticks at t = 0 (price 100) and t = 10 s (price 100.5) no alert has
  fired and the only pending timeout is the one armed at t = 0, due at t = 30 s: the
  second tick is within the deviation and rearms nothing. With no further tick the
  timeout cannot run at t = 10 s or t = 29.999 s, and when it runs at t = 30 s the alert
  has \<open>baseline_price\<close> 100, \<open>current_price\<close> 100 and a price range of
  min 100, max 100.5 over the retained history.
\<close>

theorem scenario_fires_at_30:
  "alerts scenario_two_ticks = [] \<and>
   map (\<lambda>p. (fst p, fire_at (snd p))) (timers scenario_two_ticks) = [(1, 30000)] \<and>
   alerts (fire_timer (scenario_env 10000 True True) 1 scenario_two_ticks) = [] \<and>
   alerts (fire_timer (scenario_env 29999 True True) 1 scenario_two_ticks) = [] \<and>
   map (\<lambda>r. (baseline_price r, current_price r, price_range r))
     (alerts (fire_timer (scenario_env 30000 True True) 1 scenario_two_ticks))
     = [(Some 100, Some 100, Some \<lparr>range_min = Some 100, range_max = Some 100.5\<rparr>)]"
  by (simp add: scenario_eval hook_defs)

text \<open>
  Claim C3 as stated fails: the alert is already emitted when the timeout runs at
  t = 30 s, and its baseline is 100, not 100.5, also when the timeout runs as late as
  t = 40 s.
\<close>

theorem scenario_fires_at_40_counterexample:
  "map baseline_price (alerts (fire_timer (scenario_env 30000 True True) 1 scenario_two_ticks))
     = [Some 100] \<and>
   map baseline_price (alerts (fire_timer (scenario_env 40000 True True) 1 scenario_two_ticks))
     = [Some 100] \<and>
   map baseline_price (alerts (fire_timer (scenario_env 40000 True True) 1 scenario_two_ticks))
     \<noteq> [Some 100.5]"
  by (simp add: scenario_eval hook_defs)

section \<open>Emission is gated by persistence\<close>

lemma triggerAlert_success:
  assumes "user w = Some uid" "store_ok e"
  shows "alerts (triggerAlert e tick cfg a w)
           = take 100 ((newAlert e uid tick cfg (heap w a))
                         \<lparr>log_id := Some (ClientId (nextUuid w)), created_at := Some (now e)\<rparr> # alerts w)"
    and "inactiveSymbols (triggerAlert e tick cfg a w)
           = insert (instrument_token tick) (inactiveSymbols w)"
    and "store (triggerAlert e tick cfg a w)
           = store w @ [(newAlert e uid tick cfg (heap w a))
                          \<lparr>log_id := Some (StoreId (nextStoreId w)), created_at := Some (now e)\<rparr>]"
    and "toasts (triggerAlert e tick cfg a w)
           = toasts w @ [InactivityToast (getInstrumentName e tick) (baselinePrice (heap w a))
                           (duration cfg)]"
  using assms
  by (simp_all add: triggerAlert_def AlertService_logAlert_def playAlertSound_def stopAlertSound_def
      showBrowserNotification_def upd_state_def Let_def split: option.splits)

lemma triggerAlert_failure:
  "\<not> store_ok e \<Longrightarrow> triggerAlert e tick cfg a w = w"
  by (simp add: triggerAlert_def AlertService_logAlert_def Let_def split: option.splits)

text \<open>
  Claim C1, as amended. When a timeout fires for a signed-in user and persisting the
  alert fails, nothing else happens: the instrument is not added to the inactive-symbol
  set, the alert is not put in the recent-alerts cache, and no sound, notification or
  toast is produced (the world is unchanged). When persisting succeeds, the row is
  appended to the store, the alert is prepended to the cache (capped at 100), the
  instrument is added to the inactive-symbol set and the toast is shown.
\<close>

theorem triggerAlert_gated_by_persistence:
  "user w = Some uid \<Longrightarrow>
   (\<not> store_ok e \<longrightarrow> triggerAlert e tick cfg a w = w) \<and>
   (store_ok e \<longrightarrow>
      alerts (triggerAlert e tick cfg a w)
        = take 100 ((newAlert e uid tick cfg (heap w a))
                      \<lparr>log_id := Some (ClientId (nextUuid w)), created_at := Some (now e)\<rparr> # alerts w) \<and>
      inactiveSymbols (triggerAlert e tick cfg a w)
        = insert (instrument_token tick) (inactiveSymbols w) \<and>
      store (triggerAlert e tick cfg a w)
        = store w @ [(newAlert e uid tick cfg (heap w a))
                       \<lparr>log_id := Some (StoreId (nextStoreId w)), created_at := Some (now e)\<rparr>] \<and>
      toasts (triggerAlert e tick cfg a w)
        = toasts w @ [InactivityToast (getInstrumentName e tick) (baselinePrice (heap w a)) (duration cfg)])"
  using triggerAlert_success[of w uid e tick cfg a] triggerAlert_failure[of e tick cfg a w]
  by blast

theorem triggerAlert_gated_by_persistence_witness:
  "triggerAlert (scenario_env 30000 True False) (scenario_tick 100 0) (scenario_config False) 0
     scenario_two_ticks = scenario_two_ticks \<and>
   inactiveSymbols (triggerAlert (scenario_env 30000 True True) (scenario_tick 100 0)
     (scenario_config False) 0 scenario_two_ticks) = {101} \<and>
   length (alerts (triggerAlert (scenario_env 30000 True True) (scenario_tick 100 0)
     (scenario_config False) 0 scenario_two_ticks)) = 1"
proof -
  have refused: "\<not> store_ok (scenario_env 30000 True False)"
    and accepted: "store_ok (scenario_env 30000 True True)"
    by (simp_all add: scenario_env_def)
  note gated = triggerAlert_gated_by_persistence[OF scenario_two_ticks_facts(1),
      where tick = "scenario_tick 100 0" and cfg = "scenario_config False" and a = 0]
  from gated[where e = "scenario_env 30000 True False"] refused
  have "triggerAlert (scenario_env 30000 True False) (scenario_tick 100 0) (scenario_config False) 0
          scenario_two_ticks = scenario_two_ticks"
    by blast
  moreover from gated[where e = "scenario_env 30000 True True"] accepted
  have "inactiveSymbols (triggerAlert (scenario_env 30000 True True) (scenario_tick 100 0)
          (scenario_config False) 0 scenario_two_ticks) = {101}"
    and "length (alerts (triggerAlert (scenario_env 30000 True True) (scenario_tick 100 0)
          (scenario_config False) 0 scenario_two_ticks)) = 1"
    by (simp_all add: scenario_two_ticks_facts scenario_tick_def)
  ultimately show ?thesis by blast
qed

text \<open>
  Claim C1 as stated fails: when the timeout of the two-tick scenario runs at t = 30 s
  and the store refuses the insert, the cache stays empty, token 101 is not marked
  inactive, and there is no toast, sound or notification.
\<close>

theorem persistence_failure_counterexample:
  "alerts (fire_timer (scenario_env 30000 True False) 1 scenario_two_ticks) = [] \<and>
   101 \<notin> inactiveSymbols (fire_timer (scenario_env 30000 True False) 1 scenario_two_ticks) \<and>
   toasts (fire_timer (scenario_env 30000 True False) 1 scenario_two_ticks) = [] \<and>
   playing (fire_timer (scenario_env 30000 True False) 1 scenario_two_ticks) = {} \<and>
   notifications (fire_timer (scenario_env 30000 True False) 1 scenario_two_ticks) = []"
  by (simp add: scenario_eval hook_defs)

section \<open>Acknowledging everything\<close>

text \<open>What \<open>clearAllAlerts\<close> achieves when \<open>acknowledgeAllAlerts\<close> succeeds: the cache
  holds no unacknowledged record, the inactive-symbol set is empty, and every state object
  in \<open>symbolStates\<close> holds no oscillator, the one it held being stopped.\<close>

lemma clearAllAlerts_success:
  assumes "user w = Some uid" and "store_ok e"
  shows "filter (\<lambda>r. \<not> acknowledged r) (alerts (clearAllAlerts e w)) = [] \<and>
         inactiveSymbols (clearAllAlerts e w) = {} \<and>
         symbolStates (clearAllAlerts e w) = symbolStates w \<and>
         (\<forall>token a. map_of (symbolStates w) token = Some a \<longrightarrow>
            oscillator (heap (clearAllAlerts e w) a) = None \<and>
            (\<forall>osc. oscillator (heap w a) = Some osc \<longrightarrow> osc \<notin> playing (clearAllAlerts e w)))"
proof -
  define w1 where "w1 = (snd (AlertService_acknowledgeAllAlerts e uid w))\<lparr>alerts := []\<rparr>"
  define w3 where "w3 = fold stopAlertSound (map fst (symbolStates w1)) w1"
  have eq: "clearAllAlerts e w = w3\<lparr>inactiveSymbols := {}\<rparr>"
    using assms by (simp add: clearAllAlerts_def AlertService_acknowledgeAllAlerts_def w1_def w3_def)
  have w1: "symbolStates w1 = symbolStates w" "heap w1 = heap w" "alerts w1 = []"
    using assms by (simp_all add: w1_def AlertService_acknowledgeAllAlerts_def)
  have stopped: "oscillator (heap w3 a) = None" if "map_of (symbolStates w) token = Some a" for token a
  proof -
    from that have "token \<in> set (map fst (symbolStates w1))"
      using w1(1) by (metis map_of_eq_None_iff option.distinct(1) set_map)
    with that w1 show ?thesis unfolding w3_def by (intro fold_stop_stops[of token]) simp_all
  qed
  have gone: "osc \<notin> playing w3"
    if "map_of (symbolStates w) token = Some a" "oscillator (heap w a) = Some osc" for token a osc
    using that stopped[OF that(1)] w1 unfolding w3_def by (intro fold_stop_removed[of _ a]) simp_all
  show ?thesis
    using stopped gone w1 by (simp add: eq w3_def)
qed

text \<open>
  Claim C8, evaluated on the code. In the continued scenario the insert of the alert
  returns while token 101 has no state object, so \<open>playAlertSound\<close> starts oscillator 0
  and no state holds it; token 101 is then monitored again, with a new state object that
  holds no oscillator. A successful \<open>clearAllAlerts\<close> at t = 34 s empties the cache and
  the inactive-symbol set and leaves token 101 monitored, but oscillator 0 is still
  playing: not every playing alert sound of a monitored instrument has been stopped.
\<close>

theorem clearAllAlerts_leaves_orphan_sound:
  "map_of (symbolStates scenario_orphan) 101 = Some 1 \<and>
   oscillator (heap scenario_orphan 1) = None \<and>
   playing scenario_orphan = {0} \<and>
   length (alerts scenario_orphan) = 1 \<and>
   alerts (clearAllAlerts (scenario_env 34000 True True) scenario_orphan) = [] \<and>
   inactiveSymbols (clearAllAlerts (scenario_env 34000 True True) scenario_orphan) = {} \<and>
   map_of (symbolStates (clearAllAlerts (scenario_env 34000 True True) scenario_orphan)) 101 = Some 1 \<and>
   playing (clearAllAlerts (scenario_env 34000 True True) scenario_orphan) = {0}"
  by (simp add: scenario_orphan_def scenario_eval hook_defs updateConfiguration_def
      AlertService_saveAlertConfig_def clearAllAlerts_def AlertService_acknowledgeAllAlerts_def)

section \<open>Acknowledging one alert twice\<close>

text \<open>
  Claim C9, evaluated on the code. After the alert of the two-tick scenario has fired,
  acknowledging the cached alert at t = 40 s and again at t = 50 s succeeds both times,
  and the second call replaces \<open>acknowledged_at\<close> of the cache entry (40000 becomes
  50000); the same two calls on the stored row replace \<open>acknowledged_at\<close> of the row.
  The second call is not a no-op.
\<close>

theorem acknowledge_twice_overwrites:
  "fst (acknowledgeAlert (scenario_env 50000 True True) (ClientId 0)
         (snd (acknowledgeAlert (scenario_env 40000 True True) (ClientId 0) scenario_fired))) = True \<and>
   map acknowledged_at (alerts (snd (acknowledgeAlert (scenario_env 40000 True True) (ClientId 0)
         scenario_fired))) = [Some 40000] \<and>
   map acknowledged_at (alerts (snd (acknowledgeAlert (scenario_env 50000 True True) (ClientId 0)
         (snd (acknowledgeAlert (scenario_env 40000 True True) (ClientId 0) scenario_fired)))))
     = [Some 50000] \<and>
   map acknowledged_at (store (snd (acknowledgeAlert (scenario_env 40000 True True) (StoreId 0)
         scenario_fired))) = [Some 40000] \<and>
   map acknowledged_at (store (snd (acknowledgeAlert (scenario_env 50000 True True) (StoreId 0)
         (snd (acknowledgeAlert (scenario_env 40000 True True) (StoreId 0) scenario_fired)))))
     = [Some 50000]"
  by (simp add: scenario_fired_def scenario_eval hook_defs acknowledgeAlert_def
      AlertService_acknowledgeAlert_def)

section \<open>A tick for a token that has a state object\<close>

lemma process_tick_existing:
  assumes "configurations w (instrument_token tick) = Some cfg" "enabled cfg"
    and "map_of (symbolStates w) (instrument_token tick) = Some a"
  shows "process_tick e tick w
         = process_existing e tick cfg
             (if respect_market_hours cfg then shouldAlertsBeActive e (getInstrumentName e tick) else True)
             a (if respect_market_hours cfg then w\<lparr>oracleCalls := oracleCalls w + 1\<rparr> else w)"
  using assms by (simp add: process_tick_def Let_def)



section \<open>The market-status check and the market oracle\<close>

text \<open>
  Claim C7, as amended. For an enabled instrument that respects market hours and has
  a state object, every processed tick consults the market oracle once, whatever the time
  since the last check. What is throttled is the check for a change of status: a tick
  processed no more than 60 s after \<open>lastMarketStatusCheck\<close> leaves
  \<open>lastMarketStatusCheck\<close> and \<open>wasMarketOpen\<close> as they are; a tick processed more
  than 60 s after it sets \<open>lastMarketStatusCheck\<close> to the current time and
  \<open>wasMarketOpen\<close> to the oracle's answer.
\<close>

theorem market_check_throttled_oracle_not:
  assumes cfg: "configurations w (instrument_token tick) = Some cfg" "enabled cfg"
      "respect_market_hours cfg"
    and st: "map_of (symbolStates w) (instrument_token tick) = Some a"
  shows "oracleCalls (process_tick e tick w) = oracleCalls w + 1 \<and>
         (now e - lastMarketStatusCheck (heap w a) \<le> 60000 \<longrightarrow>
            lastMarketStatusCheck (heap (process_tick e tick w) a) = lastMarketStatusCheck (heap w a) \<and>
            wasMarketOpen (heap (process_tick e tick w) a) = wasMarketOpen (heap w a)) \<and>
         (now e - lastMarketStatusCheck (heap w a) > 60000 \<longrightarrow>
            lastMarketStatusCheck (heap (process_tick e tick w) a) = now e \<and>
            wasMarketOpen (heap (process_tick e tick w) a)
              = shouldAlertsBeActive e (getInstrumentName e tick))"
  using cfg st
  by (auto simp: process_tick_def process_existing_def Let_def)

theorem market_check_throttled_oracle_not_witness:
  "oracleCalls scenario_market_tick = 1 \<and>
   oracleCalls (process_tick (scenario_env 1000 False True) (scenario_tick 100 1000)
     scenario_market_tick) = 2 \<and>
   lastMarketStatusCheck (heap (process_tick (scenario_env 1000 False True) (scenario_tick 100 1000)
     scenario_market_tick) 0) = 0 \<and>
   wasMarketOpen (heap (process_tick (scenario_env 1000 False True) (scenario_tick 100 1000)
     scenario_market_tick) 0) = True \<and>
   lastMarketStatusCheck (heap (process_tick (scenario_env 70000 False True) (scenario_tick 100 70000)
     scenario_market_tick) 0) = 70000 \<and>
   wasMarketOpen (heap (process_tick (scenario_env 70000 False True) (scenario_tick 100 70000)
     scenario_market_tick) 0) = False"
proof -
  have cfg: "configurations scenario_market_tick (instrument_token (scenario_tick 100 t))
               = Some (scenario_config True)"
    and st: "map_of (symbolStates scenario_market_tick) (instrument_token (scenario_tick 100 t)) = Some 0"
    for t
    by (simp_all add: scenario_market_tick_facts scenario_tick_def)
  have flags: "enabled (scenario_config True)" "respect_market_hours (scenario_config True)"
    by (simp_all add: scenario_config_def)
  from market_check_throttled_oracle_not[OF cfg[of 1000] flags st[of 1000],
         where e = "scenario_env 1000 False True"]
       market_check_throttled_oracle_not[OF cfg[of 70000] flags st[of 70000],
         where e = "scenario_env 70000 False True"]
  show ?thesis
    by (simp add: scenario_market_tick_facts scenario_env_def)
qed

text \<open>
  Claim C7 as stated fails: three ticks of one instrument within two seconds consult
  the oracle three times.
\<close>

theorem oracle_every_tick_counterexample:
  "oracleCalls (run [Ticks (scenario_env 0 True True) [scenario_tick 100 0],
                     Ticks (scenario_env 1000 True True) [scenario_tick 100 1000],
                     Ticks (scenario_env 2000 True True) [scenario_tick 100 2000]]
                  (scenario_init True)) = 3"
  by (simp add: scenario_eval hook_defs)

section \<open>The retained history\<close>

lemma hist_ok_single [simp]: "hist_ok [p]" and hist_ok_Nil [simp]: "hist_ok []"
  by (simp_all add: hist_ok_def)

lemma slice_last_length: "length (slice_last n xs) \<le> n"
  by (simp add: slice_last_def)

lemma slice_last_set: "set (slice_last n xs) \<subseteq> set xs"
  by (simp add: slice_last_def set_drop_subset)

lemma slice_last_snoc: "0 < n \<Longrightarrow> slice_last n (xs @ [x]) \<noteq> [] \<and> last (slice_last n (xs @ [x])) = x"
  by (simp add: slice_last_def)

lemma pruned_props:
  "length (pruned e tick h) \<le> 100"
  "pruned e tick h \<noteq> []"
  "last (pruned e tick h) = \<lparr>price = last_price tick, timestamp = now e\<rparr>"
  "\<forall>p\<in>set (pruned e tick h). now e - timestamp p < 300000"
proof -
  let ?pt = "\<lparr>price = last_price tick, timestamp = now e\<rparr>"
  let ?f = "filter (\<lambda>p. timestamp p > now e - 5 * 60 * 1000) h"
  have eq: "pruned e tick h = slice_last 100 (?f @ [?pt])"
    by (simp add: pruned_def)
  show "length (pruned e tick h) \<le> 100" unfolding eq by (rule slice_last_length)
  show "pruned e tick h \<noteq> []" "last (pruned e tick h) = ?pt"
    unfolding eq using slice_last_snoc[of 100 ?f ?pt] by simp_all
  show "\<forall>p\<in>set (pruned e tick h). now e - timestamp p < 300000"
  proof
    fix p assume "p \<in> set (pruned e tick h)"
    then have "p \<in> set (?f @ [?pt])" unfolding eq using slice_last_set by fastforce
    then show "now e - timestamp p < 300000" by auto
  qed
qed

lemma hist_ok_pruned: "hist_ok (pruned e tick h)"
  using pruned_props[of e tick h] by (simp add: hist_ok_def)

lemma process_existing_history:
  "priceHistory (heap (process_existing e tick cfg sa a w) b) = priceHistory (heap w b) \<or>
   b = a \<and> (priceHistory (heap (process_existing e tick cfg sa a w) b)
               = [\<lparr>price = last_price tick, timestamp = now e\<rparr>] \<or>
            priceHistory (heap (process_existing e tick cfg sa a w) b)
               = pruned e tick (priceHistory (heap w a)))"
  by (simp add: process_existing_def Let_def pruned_def)

lemma hist_inv_same:
  "hist_inv w \<Longrightarrow> (\<And>a. priceHistory (heap w' a) = priceHistory (heap w a)) \<Longrightarrow> hist_inv w'"
  by (simp add: hist_inv_def)

lemma hist_inv_clearSymbolState: "hist_inv w \<Longrightarrow> hist_inv (clearSymbolState t w)"
  by (erule hist_inv_same) simp

lemma hist_inv_triggerAlert: "hist_inv w \<Longrightarrow> hist_inv (triggerAlert e tick cfg a w)"
  by (erule hist_inv_same) simp

lemma hist_inv_stopAlertSound: "hist_inv w \<Longrightarrow> hist_inv (stopAlertSound t w)"
  by (erule hist_inv_same) simp

lemma hist_inv_resetInactivityTimer: "hist_inv w \<Longrightarrow> hist_inv (resetInactivityTimer e tick cfg a w)"
  by (simp add: hist_inv_def)

lemma hist_inv_process_existing:
  assumes "hist_inv w"
  shows "hist_inv (process_existing e tick cfg sa a w)"
  unfolding hist_inv_def
proof
  fix b
  from assms have "hist_ok (priceHistory (heap w b))" by (simp add: hist_inv_def)
  with process_existing_history[of e tick cfg sa a w b]
  show "hist_ok (priceHistory (heap (process_existing e tick cfg sa a w) b))"
    by (auto simp: hist_ok_pruned)
qed

lemma hist_inv_oracle: "hist_inv (w\<lparr>oracleCalls := n\<rparr>) = hist_inv w"
  by (simp add: hist_inv_def)

lemma hist_inv_process_tick:
  assumes "hist_inv w"
  shows "hist_inv (process_tick e tick w)"
proof (cases "configurations w (instrument_token tick)")
  case None
  with assms show ?thesis by (simp add: process_tick_def hist_inv_clearSymbolState)
next
  case (Some cfg)
  let ?w0 = "if respect_market_hours cfg then w\<lparr>oracleCalls := oracleCalls w + 1\<rparr> else w"
  have w0: "hist_inv ?w0" using assms by (simp add: hist_inv_oracle)
  show ?thesis
  proof (cases "enabled cfg")
    case False
    with Some assms show ?thesis by (simp add: process_tick_def hist_inv_clearSymbolState)
  next
    case True
    show ?thesis
    proof (cases "map_of (symbolStates w) (instrument_token tick)")
      case (Some a)
      with \<open>configurations w (instrument_token tick) = Some cfg\<close> True
      show ?thesis
        using hist_inv_process_existing[OF w0] by (simp add: process_tick_existing)
    next
      case None
      let ?st = "\<lambda>sa. \<lparr>baselinePrice = last_price tick, timerId = None,
                   priceHistory = [\<lparr>price = last_price tick, timestamp = now e\<rparr>],
                   lastMarketStatusCheck = now e, wasMarketOpen = sa,
                   oscillator = None, gainNode = None\<rparr>"
      have new: "hist_inv (?w0\<lparr>heap := (heap ?w0)(nextAddr ?w0 := ?st sa),
                    symbolStates := AList.update (instrument_token tick) (nextAddr ?w0) (symbolStates ?w0),
                    nextAddr := nextAddr ?w0 + 1\<rparr>)" for sa
        using assms by (simp add: hist_inv_def)
      from None \<open>configurations w (instrument_token tick) = Some cfg\<close> True
      show ?thesis
        using new hist_inv_resetInactivityTimer[OF new]
        by (simp add: process_tick_def Let_def)
    qed
  qed
qed

lemma hist_inv_fold_process_tick:
  "hist_inv w \<Longrightarrow> hist_inv (fold (process_tick e) ts w)"
  by (induction ts arbitrary: w) (simp_all add: hist_inv_process_tick)

lemma hist_inv_tick_effect: "hist_inv w \<Longrightarrow> hist_inv (tick_effect e ticks w)"
  by (simp add: tick_effect_def hist_inv_fold_process_tick)

lemma hist_inv_fire_timer: "hist_inv w \<Longrightarrow> hist_inv (fire_timer e tid w)"
  by (auto simp: fire_timer_def timeout_callback_def Let_def hist_inv_def split: option.splits)

lemma hist_inv_fire_timer_begin: "hist_inv w \<Longrightarrow> hist_inv (fire_timer_begin e tid w)"
  by (auto simp: fire_timer_begin_def timeout_callback_begin_def Let_def hist_inv_def
      split: option.splits)

lemma hist_inv_logAlert_returns: "hist_inv w \<Longrightarrow> hist_inv (logAlert_returns e n w)"
  by (erule hist_inv_same) simp

lemma hist_inv_step: "hist_inv w \<Longrightarrow> hist_inv (step ev w)"
proof (cases ev)
  case (TimeoutBegins e tid)
  assume "hist_inv w" with TimeoutBegins show ?thesis by (simp add: hist_inv_fire_timer_begin)
next
  case (LogAlertReturns e n)
  assume "hist_inv w" with LogAlertReturns show ?thesis by (simp add: hist_inv_logAlert_returns)
next
  case (Ticks e ticks)
  assume "hist_inv w" with Ticks show ?thesis by (simp add: hist_inv_tick_effect)
next
  case (Timeout e tid)
  assume "hist_inv w" with Timeout show ?thesis by (simp add: hist_inv_fire_timer)
next
  case (UpdateConfiguration e t cfg)
  assume "hist_inv w" with UpdateConfiguration show ?thesis
    by (simp add: updateConfiguration_def hist_inv_def split: option.splits)
next
  case (Acknowledge e i)
  assume "hist_inv w" with Acknowledge show ?thesis
    by (simp add: acknowledgeAlert_def AlertService_acknowledgeAlert_def hist_inv_def
        split: option.splits)
next
  case (ClearAll e)
  assume "hist_inv w" with ClearAll show ?thesis
    by (simp add: clearAllAlerts_def AlertService_acknowledgeAllAlerts_def hist_inv_def
        split: option.splits)
qed

lemma hist_inv_run: "hist_inv w \<Longrightarrow> hist_inv (run evs w)"
  unfolding run_def by (induction evs arbitrary: w) (simp_all add: hist_inv_step)

lemma hist_inv_init: "hist_inv (init_world uid cfgs audio)"
  by (simp add: hist_inv_def init_world_def empty_state_def)

lemma process_tick_records:
  assumes cfg: "configurations w (instrument_token tick) = Some cfg" "enabled cfg"
    and eligible: "respect_market_hours cfg \<longrightarrow> shouldAlertsBeActive e (getInstrumentName e tick)"
  shows "\<exists>a. map_of (symbolStates (process_tick e tick w)) (instrument_token tick) = Some a \<and>
           priceHistory (heap (process_tick e tick w) a) \<noteq> [] \<and>
           last (priceHistory (heap (process_tick e tick w) a))
             = \<lparr>price = last_price tick, timestamp = now e\<rparr> \<and>
           (\<forall>p\<in>set (priceHistory (heap (process_tick e tick w) a)). now e - timestamp p < 300000)"
proof (cases "map_of (symbolStates w) (instrument_token tick)")
  case None
  with cfg eligible show ?thesis
    by (simp add: process_tick_def Let_def AList.update_conv')
next
  case (Some a)
  let ?w0 = "if respect_market_hours cfg then w\<lparr>oracleCalls := oracleCalls w + 1\<rparr> else w"
  let ?w' = "process_existing e tick cfg True a ?w0"
  have pt: "process_tick e tick w = ?w'"
    using process_tick_existing[OF cfg Some, of e] eligible by simp
  have sym: "map_of (symbolStates ?w') (instrument_token tick) = Some a"
    using Some by (simp add: process_existing_def Let_def)
  have "priceHistory (heap ?w' a) = [\<lparr>price = last_price tick, timestamp = now e\<rparr>] \<or>
        priceHistory (heap ?w' a) = pruned e tick (priceHistory (heap w a))"
    by (simp add: process_existing_def Let_def pruned_def)
  then show ?thesis
    unfolding pt using sym pruned_props[of e tick "priceHistory (heap w a)"] by auto
qed

lemma process_tick_suspended:
  assumes cfg: "configurations w (instrument_token tick) = Some cfg" "enabled cfg"
    and st: "map_of (symbolStates w) (instrument_token tick) = Some a"
    and closed: "respect_market_hours cfg" "\<not> shouldAlertsBeActive e (getInstrumentName e tick)"
  shows "priceHistory (heap (process_tick e tick w) b) = priceHistory (heap w b)"
  using process_tick_existing[OF cfg st, of e] closed
  by (simp add: process_existing_def Let_def)

text \<open>
  Claim C6, as amended. In every world the hook reaches, every state object's history
  has at most 100 entries and no entry 5 minutes or more older than the history's last
  entry, the tick recorded last. A tick processed while the instrument is enabled and
  alerting is eligible is recorded: afterwards the instrument has a state object whose
  history ends with that tick at the current time, so that no entry is 5 minutes or
  more older than it. A tick processed for a monitored instrument while market hours are
  respected and the market is closed is not recorded: every history is left as it was.
\<close>

theorem history_bounded:
  assumes "w = run evs (init_world uid cfgs audio)"
  shows "(\<forall>a. length (priceHistory (heap w a)) \<le> 100 \<and>
              (\<forall>p\<in>set (priceHistory (heap w a)).
                 timestamp (last (priceHistory (heap w a))) - timestamp p < 300000)) \<and>
         (\<forall>cfg. configurations w (instrument_token tick) = Some cfg \<and> enabled cfg \<and>
               (respect_market_hours cfg \<longrightarrow> shouldAlertsBeActive e (getInstrumentName e tick)) \<longrightarrow>
               (\<exists>a. map_of (symbolStates (process_tick e tick w)) (instrument_token tick) = Some a \<and>
                    length (priceHistory (heap (process_tick e tick w) a)) \<le> 100 \<and>
                    last (priceHistory (heap (process_tick e tick w) a))
                      = \<lparr>price = last_price tick, timestamp = now e\<rparr> \<and>
                    (\<forall>p\<in>set (priceHistory (heap (process_tick e tick w) a)).
                       now e - timestamp p < 300000))) \<and>
         (\<forall>cfg a. configurations w (instrument_token tick) = Some cfg \<and> enabled cfg \<and>
               map_of (symbolStates w) (instrument_token tick) = Some a \<and>
               respect_market_hours cfg \<and> \<not> shouldAlertsBeActive e (getInstrumentName e tick) \<longrightarrow>
               (\<forall>b. priceHistory (heap (process_tick e tick w) b) = priceHistory (heap w b)))"
proof -
  have inv: "hist_inv w"
    unfolding assms by (intro hist_inv_run hist_inv_init)
  then have inv': "hist_inv (process_tick e tick w)"
    by (rule hist_inv_process_tick)
  have recorded: "\<exists>a. map_of (symbolStates (process_tick e tick w)) (instrument_token tick) = Some a \<and>
             length (priceHistory (heap (process_tick e tick w) a)) \<le> 100 \<and>
             last (priceHistory (heap (process_tick e tick w) a))
               = \<lparr>price = last_price tick, timestamp = now e\<rparr> \<and>
             (\<forall>p\<in>set (priceHistory (heap (process_tick e tick w) a)). now e - timestamp p < 300000)"
    if "configurations w (instrument_token tick) = Some cfg" "enabled cfg"
      "respect_market_hours cfg \<longrightarrow> shouldAlertsBeActive e (getInstrumentName e tick)" for cfg
    using process_tick_records[OF that] inv' unfolding hist_inv_def hist_ok_def by blast
  have ignored: "priceHistory (heap (process_tick e tick w) b) = priceHistory (heap w b)"
    if "configurations w (instrument_token tick) = Some cfg" "enabled cfg"
      "map_of (symbolStates w) (instrument_token tick) = Some a"
      "respect_market_hours cfg" "\<not> shouldAlertsBeActive e (getInstrumentName e tick)" for cfg a b
    using that by (rule process_tick_suspended)
  have bounded: "\<forall>a. length (priceHistory (heap w a)) \<le> 100 \<and>
              (\<forall>p\<in>set (priceHistory (heap w a)).
                 timestamp (last (priceHistory (heap w a))) - timestamp p < 300000)"
    using inv unfolding hist_inv_def hist_ok_def by blast
  from bounded recorded ignored show ?thesis by blast
qed

theorem history_bounded_witness:
  "length (priceHistory (heap scenario_two_ticks 0)) = 2 \<and>
   (\<exists>a. map_of (symbolStates (process_tick (scenario_env 400000 True True)
            (scenario_tick 100.2 400000) scenario_two_ticks)) 101 = Some a \<and>
        last (priceHistory (heap (process_tick (scenario_env 400000 True True)
            (scenario_tick 100.2 400000) scenario_two_ticks) a))
          = \<lparr>price = 100.2, timestamp = 400000\<rparr> \<and>
        length (priceHistory (heap (process_tick (scenario_env 400000 True True)
            (scenario_tick 100.2 400000) scenario_two_ticks) a)) \<le> 100) \<and>
   map timestamp (priceHistory (heap (process_tick (scenario_env 5000 False True)
            (scenario_tick 102 5000) scenario_market_tick) 0)) = [0]"
proof -
  have reach: "scenario_two_ticks
      = run [Ticks (scenario_env 0 True True) [scenario_tick 100 0],
             Ticks (scenario_env 10000 True True) [scenario_tick 100.5 10000]]
          (init_world ''u1'' [101 \<mapsto> scenario_config False] True)"
    by (simp add: scenario_two_ticks_def scenario_init_def)
  have cfg: "configurations scenario_two_ticks (instrument_token (scenario_tick 100.2 400000))
               = Some (scenario_config False)"
    by (simp add: scenario_two_ticks_facts scenario_tick_def)
  have flags: "enabled (scenario_config False)" "\<not> respect_market_hours (scenario_config False)"
    by (simp_all add: scenario_config_def)
  have two: "length (priceHistory (heap scenario_two_ticks 0)) = 2"
    by (simp add: scenario_eval)
  from history_bounded[OF reach, where tick = "scenario_tick 100.2 400000"
      and e = "scenario_env 400000 True True", THEN conjunct2, THEN conjunct1] cfg flags
  have "\<exists>a. map_of (symbolStates (process_tick (scenario_env 400000 True True)
            (scenario_tick 100.2 400000) scenario_two_ticks))
              (instrument_token (scenario_tick 100.2 400000)) = Some a \<and>
        length (priceHistory (heap (process_tick (scenario_env 400000 True True)
            (scenario_tick 100.2 400000) scenario_two_ticks) a)) \<le> 100 \<and>
        last (priceHistory (heap (process_tick (scenario_env 400000 True True)
            (scenario_tick 100.2 400000) scenario_two_ticks) a))
          = \<lparr>price = last_price (scenario_tick 100.2 400000),
              timestamp = now (scenario_env 400000 True True)\<rparr> \<and>
        (\<forall>p\<in>set (priceHistory (heap (process_tick (scenario_env 400000 True True)
            (scenario_tick 100.2 400000) scenario_two_ticks) a)).
           now (scenario_env 400000 True True) - timestamp p < 300000)"
    by blast
  then have recorded: "\<exists>a. map_of (symbolStates (process_tick (scenario_env 400000 True True)
            (scenario_tick 100.2 400000) scenario_two_ticks)) 101 = Some a \<and>
        last (priceHistory (heap (process_tick (scenario_env 400000 True True)
            (scenario_tick 100.2 400000) scenario_two_ticks) a))
          = \<lparr>price = 100.2, timestamp = 400000\<rparr> \<and>
        length (priceHistory (heap (process_tick (scenario_env 400000 True True)
            (scenario_tick 100.2 400000) scenario_two_ticks) a)) \<le> 100"
    by (auto simp: scenario_tick_def scenario_env_def)
  have reach': "scenario_market_tick
      = run [Ticks (scenario_env 0 True True) [scenario_tick 100 0]]
          (init_world ''u1'' [101 \<mapsto> scenario_config True] True)"
    by (simp add: scenario_market_tick_def scenario_init_def)
  have cfg': "configurations scenario_market_tick (instrument_token (scenario_tick 102 5000))
                = Some (scenario_config True)"
    and st': "map_of (symbolStates scenario_market_tick) (instrument_token (scenario_tick 102 5000))
                = Some 0"
    by (simp_all add: scenario_market_tick_facts scenario_tick_def)
  have flags': "enabled (scenario_config True)" "respect_market_hours (scenario_config True)"
    "\<not> shouldAlertsBeActive (scenario_env 5000 False True)
         (getInstrumentName (scenario_env 5000 False True) (scenario_tick 102 5000))"
    by (simp_all add: scenario_config_def scenario_env_def)
  from history_bounded[OF reach', where tick = "scenario_tick 102 5000"
      and e = "scenario_env 5000 False True", THEN conjunct2, THEN conjunct2] cfg' st' flags'
  have "priceHistory (heap (process_tick (scenario_env 5000 False True)
            (scenario_tick 102 5000) scenario_market_tick) 0)
          = priceHistory (heap scenario_market_tick 0)"
    by blast
  then have ignored: "map timestamp (priceHistory (heap (process_tick (scenario_env 5000 False True)
            (scenario_tick 102 5000) scenario_market_tick) 0)) = [0]"
    by (simp add: scenario_eval)
  from two recorded ignored show ?thesis by blast
qed

text \<open>
  Claim C6 as stated fails: with market hours respected, after the alert of t = 30 s
  (and the effect running again on the last tick) a tick processed at t = 400 s while the
  market is closed leaves token 101 with a history whose entries are from t = 0 and
  t = 30 s, both more than 5 minutes before that tick.
\<close>

theorem stale_history_counterexample:
  "map_of (symbolStates (run [Timeout (scenario_env 30000 True True) 1,
                               Ticks (scenario_env 30000 True True) [scenario_tick 100 0],
                               Ticks (scenario_env 400000 False True) [scenario_tick 100 400000]]
                            scenario_market_tick)) 101 = Some 0 \<and>
   map timestamp (priceHistory (heap (run [Timeout (scenario_env 30000 True True) 1,
                               Ticks (scenario_env 30000 True True) [scenario_tick 100 0],
                               Ticks (scenario_env 400000 False True) [scenario_tick 100 400000]]
                            scenario_market_tick) 0)) = [0, 30000] \<and>
   (400000::int) - 30000 > 5 * 60 * 1000"
  by (simp add: scenario_eval hook_defs)

section \<open>Pending timeouts and their state objects\<close>





















lemma emitted_ok_ack [simp]:
  "emitted_ok (r\<lparr>acknowledged := b, acknowledged_at := t\<rparr>) = emitted_ok r"
  by (simp add: emitted_ok_def)


lemma emitted_ok_stamp [simp]:
  "emitted_ok (r\<lparr>log_id := i, created_at := c\<rparr>) = emitted_ok r"
  by (simp add: emitted_ok_def)






section \<open>Records emitted on a timeout\<close>

lemma run_append: "run evs' (run evs w) = run (evs @ evs') w"
  by (simp add: run_def)




section \<open>After the timeout has fired\<close>






section \<open>A move beyond the deviation\<close>




end
